theory Spec2Isabelle
  imports Main
begin

section \<open>Brand asset generation: the service module and the brand form\<close>

text \<open>
  The development follows the service module \<^verbatim>\<open>src/services/geminiService.ts\<close> and the
  submit handler of \<^verbatim>\<open>src/components/BrandManager.tsx\<close>. The sources keep several
  revisions of the service module. \<^verbatim>\<open>fetchImageToBase64\<close>, \<^verbatim>\<open>fetchLogoFromUrl\<close>,
  \<^verbatim>\<open>buildPrompt\<close>, \<^verbatim>\<open>generateDrafts\<close>, \<^verbatim>\<open>editAsset\<close> and
  \<^verbatim>\<open>generateVisualizationVideo\<close> are taken from the first revision in that file (lines 1
  to 494). \<^verbatim>\<open>analyzeAnnotations\<close>, \<^verbatim>\<open>generateRealWorldPreview\<close> and the \<^verbatim>\<open>editAsset\<close> that
  calls the annotation interpreter exist only in the later revision
  \<^verbatim>\<open>src/unnamed/part_004\<close> and are taken from there; that \<^verbatim>\<open>editAsset\<close> is named
  \<open>editAsset_annotated\<close> here. The two fetch helpers, \<^verbatim>\<open>buildPrompt\<close> and the loop and
  return of \<^verbatim>\<open>generateVisualizationVideo\<close> are the same text in both revisions.

  Everything outside the module is a field of the record \<open>host\<close>: the process environment,
  the browser's \<^verbatim>\<open>fetch\<close>, \<^verbatim>\<open>URL\<close> and \<^verbatim>\<open>encodeURIComponent\<close>, and the generative-media
  service. A call that can throw or reject returns \<open>error + 'a\<close>; a service that may answer
  differently from one call to the next takes the number of the call as its first argument.
  Strings are byte strings, UTF-8 for what is not ASCII; every text the module builds
  itself is ASCII.
\<close>

subsection \<open>JavaScript values and string helpers\<close>

datatype error =
  Error string        \<comment> \<open>\<^verbatim>\<open>throw new Error(msg)\<close> of the module itself\<close>
| HostError string    \<comment> \<open>an exception or rejection raised by the host or the service\<close>

text \<open>Truthiness of an optional string: \<^verbatim>\<open>undefined\<close>, \<^verbatim>\<open>null\<close> and \<^verbatim>\<open>""\<close> are falsy.\<close>

definition truthy :: "string option \<Rightarrow> bool" where
  "truthy v = (case v of None \<Rightarrow> False | Some s \<Rightarrow> s \<noteq> [])"

text \<open>\<^verbatim>\<open>a || b\<close> on optional strings, and with a string literal on the right.\<close>

definition or_js :: "string option \<Rightarrow> string option \<Rightarrow> string option" where
  "or_js a b = (if truthy a then a else b)"

definition or_default :: "string option \<Rightarrow> string \<Rightarrow> string" where
  "or_default a d = (case a of None \<Rightarrow> d | Some s \<Rightarrow> if s = [] then d else s)"

text \<open>A template literal prints a missing value as the text \<^verbatim>\<open>undefined\<close>.\<close>

definition tpl :: "string option \<Rightarrow> string" where
  "tpl v = (case v of None \<Rightarrow> ''undefined'' | Some s \<Rightarrow> s)"

definition nl :: string where
  "nl = [CHR 0x0A]"

definition dq :: string where
  "dq = [CHR 0x22]"

text \<open>
  \<^verbatim>\<open>s.length\<close> counts UTF-16 code units. In UTF-8 a character of one, two or three
  bytes is one unit and a character of four bytes is two (a surrogate pair), so each
  byte counts by what it starts: nothing for a continuation byte.
\<close>

definition utf16_units :: "char \<Rightarrow> nat" where
  "utf16_units c =
     (let b = (of_char c :: nat)
      in if b < 128 then 1 else if b < 192 then 0 else if b < 240 then 1 else 2)"

definition js_length :: "string \<Rightarrow> nat" where
  "js_length s = sum_list (map utf16_units s)"

text \<open>\<^verbatim>\<open>xs[i]\<close>: \<^verbatim>\<open>undefined\<close> out of range.\<close>

fun nth_opt :: "'a list \<Rightarrow> nat \<Rightarrow> 'a option" where
  "nth_opt [] i = None"
| "nth_opt (x # xs) 0 = Some x"
| "nth_opt (x # xs) (Suc i) = nth_opt xs i"

text \<open>\<^verbatim>\<open>xs.join(sep)\<close> on an array of strings.\<close>

fun join :: "string \<Rightarrow> string list \<Rightarrow> string" where
  "join sep [] = []"
| "join sep [x] = x"
| "join sep (x # y # ys) = x @ sep @ join sep (y # ys)"

text \<open>\<^verbatim>\<open>s.startsWith(p)\<close> and \<^verbatim>\<open>s.includes(p)\<close>.\<close>

fun startsWith :: "string \<Rightarrow> string \<Rightarrow> bool" where
  "startsWith s [] = True"
| "startsWith [] (p # ps) = False"
| "startsWith (c # cs) (p # ps) = (c = p \<and> startsWith cs ps)"

fun includes_str :: "string \<Rightarrow> string \<Rightarrow> bool" where
  "includes_str [] p = (p = [])"
| "includes_str (c # cs) p = (startsWith (c # cs) p \<or> includes_str cs p)"

text \<open>
  \<^verbatim>\<open>s.toLowerCase()\<close> on the ASCII letters. Every text the module searches for in a
  lower-cased string is ASCII and has no letter that a non-ASCII character lower-cases to
  in a position where it could complete a match, so the bytes of other characters are kept.
\<close>

definition lower_char :: "char \<Rightarrow> char" where
  "lower_char c =
     (let n = (of_char c :: nat)
      in if 65 \<le> n \<and> n \<le> 90 then char_of (n + 32) else c)"

definition toLowerCase :: "string \<Rightarrow> string" where
  "toLowerCase s = map lower_char s"

text \<open>\<^verbatim>\<open>s.split(',')[1]\<close>: the text between the first and the second comma, if any.\<close>

fun split_comma :: "string \<Rightarrow> string list" where
  "split_comma [] = [[]]"
| "split_comma (c # cs) =
     (if c = CHR '','' then [] # split_comma cs
      else (case split_comma cs of [] \<Rightarrow> [[c]] | w # ws \<Rightarrow> (c # w) # ws))"

definition split_comma_1 :: "string \<Rightarrow> string option" where
  "split_comma_1 s = nth_opt (split_comma s) 1"

subsection \<open>The host\<close>

text \<open>
  What \<^verbatim>\<open>fetch\<close> resolves to: \<^verbatim>\<open>response.ok\<close>, the \<^verbatim>\<open>content-type\<close> header
  (\<^verbatim>\<open>null\<close> when absent) and the body. The body is \<open>Inl\<close> when \<^verbatim>\<open>response.blob()\<close>
  rejects; otherwise it is what a \<^verbatim>\<open>FileReader\<close> leaves in \<^verbatim>\<open>reader.result\<close> after
  \<^verbatim>\<open>readAsDataURL\<close>: the data URL, or \<^verbatim>\<open>null\<close> when the read fails.
\<close>

record response =
  ok :: bool
  content_type :: "string option"
  blob :: "error + string option"

text \<open>Candidates of a \<^verbatim>\<open>generateContent\<close> response; every level may be missing.\<close>

record inline_data =
  mimeType :: "string option"
  data :: "string option"

record rpart =
  part_text :: "string option"                 \<comment> \<open>\<^verbatim>\<open>part.text\<close>\<close>
  inlineData :: "inline_data option"

record candidate =
  content_parts :: "rpart list option"   \<comment> \<open>\<^verbatim>\<open>content?.parts\<close>\<close>

record gen_response =
  candidates :: "candidate list option"

text \<open>Parts of an outbound \<^verbatim>\<open>generateContent\<close> request.\<close>

datatype part =
  TextPart string
| InlinePart string "string option"   \<comment> \<open>mime type and data\<close>

record gen_request =
  model :: string
  parts :: "part list"
  aspectRatio :: "string option"
  imageSize :: "string option"

text \<open>
  A video operation handle: its completion flag and
  \<^verbatim>\<open>operation.response?.generatedVideos\<close>, each entry being its \<^verbatim>\<open>video?.uri\<close>.
\<close>

record operation =
  op_done :: bool                              \<comment> \<open>\<^verbatim>\<open>operation.done\<close>\<close>
  generatedVideos :: "string option list option"

record host =
  API_KEY :: "string option"                                      \<comment> \<open>\<^verbatim>\<open>process.env.API_KEY\<close>\<close>
  encodeURIComponent :: "string \<Rightarrow> error + string"
  url_hostname :: "string \<Rightarrow> error + string"                    \<comment> \<open>\<^verbatim>\<open>new URL(s).hostname\<close>\<close>
  fetch :: "nat \<Rightarrow> string \<Rightarrow> error + response"
  generateContent :: "nat \<Rightarrow> gen_request \<Rightarrow> error + gen_response"
  generateVideos :: "error + operation"
  getVideosOperation :: "nat \<Rightarrow> operation \<Rightarrow> error + operation"
  settles_first :: "nat list \<Rightarrow> nat"

text \<open>
  \<open>settles_first\<close> is the timing of concurrent requests: of the requests with the given
  numbers, the one that settles first.

  \<open>generateVideos\<close> is what \<^verbatim>\<open>ai.models.generateVideos\<close> settles to for the one
  submission a video function makes. The asset image, the subtype and the brand that the
  video functions take decide only the request they submit (the scene direction), which
  is not modelled; so the two functions below take the host alone.
\<close>

definition getClient :: "host \<Rightarrow> error + string" where
  "getClient h =
     (let key = API_KEY h
      in if \<not> truthy key then Inl (Error ''API Key not found. Please select a key.'')
         else Inr (tpl key))"

subsection \<open>Media fetch and logo resolution\<close>

datatype fetched = Undefined | Null | DataUrl string

definition resolved :: "fetched \<Rightarrow> bool" where
  "resolved r = (case r of DataUrl s \<Rightarrow> s \<noteq> [] | _ \<Rightarrow> False)"

text \<open>The body of the \<^verbatim>\<open>try\<close> block of \<^verbatim>\<open>fetchImageToBase64\<close>.\<close>

definition fetchImageToBase64_try :: "host \<Rightarrow> nat \<Rightarrow> string \<Rightarrow> error + fetched" where
  "fetchImageToBase64_try h k url =
     (case encodeURIComponent h url of
        Inl e \<Rightarrow> Inl e
      | Inr enc \<Rightarrow>
          (case fetch h k (''https://corsproxy.io/?'' @ enc) of
             Inl e \<Rightarrow> Inl e
           | Inr response \<Rightarrow>
               if \<not> ok response then Inr Undefined
               else
                 let contentType = content_type response
                 in if \<not> truthy contentType \<or> \<not> startsWith (tpl contentType) ''image/''
                    then Inr Undefined
                    else (case blob response of
                            Inl e \<Rightarrow> Inl e
                          | Inr None \<Rightarrow> Inr Null
                          | Inr (Some s) \<Rightarrow> Inr (DataUrl s))))"

text \<open>The \<^verbatim>\<open>catch\<close> clause turns every exception of the block into \<^verbatim>\<open>undefined\<close>.\<close>

definition fetchImageToBase64 :: "host \<Rightarrow> nat \<Rightarrow> string \<Rightarrow> error + fetched" where
  "fetchImageToBase64 h k url =
     (case fetchImageToBase64_try h k url of Inl e \<Rightarrow> Inr Undefined | Inr v \<Rightarrow> Inr v)"

text \<open>The array \<^verbatim>\<open>sources\<close>: favicon service, icon service, brand-logo service.\<close>

definition sources :: "string \<Rightarrow> string list" where
  "sources domain =
     [''https://www.google.com/s2/favicons?domain='' @ domain @ ''&sz=128'',
      ''https://icons.duckduckgo.com/ip3/'' @ domain @ ''.ico'',
      ''https://logo.clearbit.com/'' @ domain]"

text \<open>
  The \<^verbatim>\<open>for\<close> loop over the sources, from the \<open>k\<close>-th fetch on. It returns the sources it
  tried, in order, and the value the function returns.
\<close>

fun try_sources :: "host \<Rightarrow> nat \<Rightarrow> string list \<Rightarrow> string list \<times> (error + fetched)" where
  "try_sources h k [] = ([], Inr Undefined)"
| "try_sources h k (logoUrl # rest) =
     (case fetchImageToBase64 h k logoUrl of
        Inl e \<Rightarrow> ([logoUrl], Inl e)
      | Inr result \<Rightarrow>
          if resolved result then ([logoUrl], Inr result)
          else (let (tried, r) = try_sources h (Suc k) rest in (logoUrl # tried, r)))"

definition fetchLogoFromUrl :: "host \<Rightarrow> string \<Rightarrow> string list \<times> (error + fetched)" where
  "fetchLogoFromUrl h websiteUrl =
     (case url_hostname h websiteUrl of
        Inl e \<Rightarrow> ([], Inr Undefined)
      | Inr domain \<Rightarrow>
          (case try_sources h 0 (sources domain) of
             (tried, Inl e) \<Rightarrow> (tried, Inr Undefined)
           | (tried, Inr r) \<Rightarrow> (tried, Inr r)))"

text \<open>Whether the \<open>k\<close>-th fetch, made for \<open>u\<close>, passes the test \<^verbatim>\<open>if (result)\<close>.\<close>

definition source_resolves :: "host \<Rightarrow> nat \<Rightarrow> string \<Rightarrow> bool" where
  "source_resolves h k u =
     (case fetchImageToBase64 h k u of Inl e \<Rightarrow> False | Inr r \<Rightarrow> resolved r)"

subsection \<open>Video generation and polling\<close>

text \<open>
  What a polling loop does besides computing: \<^verbatim>\<open>setTimeout(resolve, ms)\<close> and the
  \<open>k\<close>-th call of \<^verbatim>\<open>ai.operations.getVideosOperation\<close> (counted from 0).
\<close>

datatype event = Sleep nat | Poll nat

text \<open>\<^verbatim>\<open>operation.response?.generatedVideos?.[0]?.video?.uri\<close>\<close>

definition videoUri :: "operation \<Rightarrow> string option" where
  "videoUri operation =
     (case generatedVideos operation of None \<Rightarrow> None | Some [] \<Rightarrow> None | Some (v # vs) \<Rightarrow> v)"

text \<open>
  The loop of \<^verbatim>\<open>generateRealWorldPreview\<close>:
  \<^verbatim>\<open>while (!operation.done && pollCount < 60) { sleep; operation = poll; pollCount++ }\<close>.
  It returns the events so far and the handle it ends with, or the rejection of a poll.
\<close>

function poll_preview ::
  "host \<Rightarrow> nat \<Rightarrow> operation \<Rightarrow> event list \<Rightarrow> event list \<times> (error + operation)" where
  "poll_preview h pollCount operation evs =
     (if \<not> op_done operation \<and> pollCount < 60 then
        (case getVideosOperation h pollCount operation of
           Inl e \<Rightarrow> (evs @ [Sleep 5000, Poll pollCount], Inl e)
         | Inr operation' \<Rightarrow>
             poll_preview h (Suc pollCount) operation' (evs @ [Sleep 5000, Poll pollCount]))
      else (evs, Inr operation))"
  by pat_completeness auto
termination
  by (relation "measure (\<lambda>(h, pollCount, operation, evs). 60 - pollCount)") auto

definition generateRealWorldPreview :: "host \<Rightarrow> event list \<times> (error + string)" where
  "generateRealWorldPreview h =
     (case getClient h of
        Inl e \<Rightarrow> ([], Inl e)
      | Inr ai \<Rightarrow>
          (case generateVideos h of
             Inl e \<Rightarrow> ([], Inl e)
           | Inr submitted \<Rightarrow>
               (case poll_preview h 0 submitted [] of
                  (evs, Inl e) \<Rightarrow> (evs, Inl e)
                | (evs, Inr operation) \<Rightarrow>
                    if \<not> truthy (videoUri operation)
                    then (evs, Inl (Error ''Preview generation failed''))
                    else (evs, Inr (tpl (videoUri operation) @ ''&key='' @ tpl (API_KEY h))))))"

text \<open>
  The loop of \<^verbatim>\<open>generateVisualizationVideo\<close>:
  \<^verbatim>\<open>while (!operation.done) { sleep; operation = poll; pollCount++ }\<close>.
  Nothing bounds it, so the result is optional: \<open>None\<close> is a loop that never ends.
\<close>

partial_function (option) poll_visualization ::
  "host \<Rightarrow> nat \<Rightarrow> operation \<Rightarrow> event list \<Rightarrow> (event list \<times> (error + operation)) option" where
  "poll_visualization h pollCount operation evs =
     (if \<not> op_done operation then
        (case getVideosOperation h pollCount operation of
           Inl e \<Rightarrow> Some (evs @ [Sleep 5000, Poll pollCount], Inl e)
         | Inr operation' \<Rightarrow>
             poll_visualization h (Suc pollCount) operation' (evs @ [Sleep 5000, Poll pollCount]))
      else Some (evs, Inr operation))"

definition generateVisualizationVideo :: "host \<Rightarrow> (event list \<times> (error + string)) option" where
  "generateVisualizationVideo h =
     (case getClient h of
        Inl e \<Rightarrow> Some ([], Inl e)
      | Inr ai \<Rightarrow>
          (case generateVideos h of
             Inl e \<Rightarrow> Some ([], Inl e)
           | Inr submitted \<Rightarrow>
               (case poll_visualization h 0 submitted [] of
                  None \<Rightarrow> None
                | Some (evs, Inl e) \<Rightarrow> Some (evs, Inl e)
                | Some (evs, Inr operation) \<Rightarrow>
                    if \<not> truthy (videoUri operation)
                    then Some (evs, Inl (Error ''Video generation failed''))
                    else Some (evs, Inr (tpl (videoUri operation) @ ''&key='' @ tpl (API_KEY h))))))"

text \<open>The events of \<open>n\<close> rounds of the loop: a sleep of 5 seconds before each poll.\<close>

definition rounds :: "nat \<Rightarrow> nat \<Rightarrow> event list" where
  "rounds k n = concat (map (\<lambda>i. [Sleep 5000, Poll i]) [k..<n])"

text \<open>
  A service that never reports completion: every poll answers, with a handle that is not
  done and carries no video.
\<close>

definition never_completes :: "host \<Rightarrow> bool" where
  "never_completes h \<longleftrightarrow>
     (\<forall>k operation. \<exists>operation'. getVideosOperation h k operation = Inr operation'
         \<and> \<not> op_done operation' \<and> \<not> truthy (videoUri operation'))"

subsection \<open>Brand data\<close>

datatype AssetType = MERCHANDISE | MARKETING | DIGITAL | VIDEO

record BrandDNA =
  name :: string
  description :: string
  websiteUrl :: "string option"
  colors :: "string list"
  typography :: string
  visualEssence :: string
  designSystem :: string
  brand_keywords :: "string list"              \<comment> \<open>\<^verbatim>\<open>dna.keywords\<close>\<close>
  logoImage :: "string option"

record Inspiration =
  insp_id :: string
  imageUrl :: string
  insp_description :: string
  extractedCues :: "string list"

subsection \<open>Reading a \<^verbatim>\<open>generateContent\<close> response\<close>

text \<open>\<^verbatim>\<open>response.candidates?.[0]?.content?.parts\<close>\<close>

definition first_parts :: "gen_response \<Rightarrow> rpart list option" where
  "first_parts response =
     (case candidates response of
        None \<Rightarrow> None
      | Some [] \<Rightarrow> None
      | Some (c # cs) \<Rightarrow> content_parts c)"

text \<open>\<^verbatim>\<open>response.candidates?.[0]?.content?.parts?.[0]?.text\<close>\<close>

definition first_text :: "gen_response \<Rightarrow> string option" where
  "first_text response =
     (case first_parts response of
        None \<Rightarrow> None
      | Some [] \<Rightarrow> None
      | Some (p # ps) \<Rightarrow> part_text p)"

text \<open>
  \<^verbatim>\<open>for (const part of ...parts || []) if (part.inlineData) return `data:...${part.inlineData.data}`\<close>:
  the data URL of the first part that carries inline data.
\<close>

fun first_image :: "rpart list \<Rightarrow> string option" where
  "first_image [] = None"
| "first_image (p # ps) =
     (case inlineData p of
        Some d \<Rightarrow> Some (''data:image/png;base64,'' @ tpl (data d))
      | None \<Rightarrow> first_image ps)"

subsection \<open>Annotation interpreter and edit applier\<close>

definition analysis_prompt :: "string \<Rightarrow> string" where
  "analysis_prompt userInstruction = concat
   [''The user has annotated this image with bright green highlights to indicate areas they want to modify. User's instruction: '', dq, userInstruction, dq, nl,
    nl,
    ''Analyze the annotated regions and the user's instruction, then create a detailed, specific prompt for image editing that:'', nl,
    ''1. Identifies what objects/areas are highlighted'', nl,
    ''2. Understands what the user wants to change based on the instruction and context'', nl,
    ''3. Provides clear editing instructions'', nl,
    nl,
    ''Respond with ONLY the improved editing prompt, nothing else.'']"

text \<open>
  The functions below return the requests they sent to \<^verbatim>\<open>ai.models.generateContent\<close>, in
  order, and their result.
\<close>

definition analysis_request :: "string \<Rightarrow> string \<Rightarrow> gen_request" where
  "analysis_request annotatedImage userInstruction =
     \<lparr>model = ''gemini-2.0-flash-exp'',
      parts = [InlinePart ''image/png'' (split_comma_1 annotatedImage),
               TextPart (analysis_prompt userInstruction)],
      aspectRatio = None,
      imageSize = None\<rparr>"

definition analyzeAnnotations ::
  "host \<Rightarrow> string \<Rightarrow> string \<Rightarrow> gen_request list \<times> (error + string)" where
  "analyzeAnnotations h annotatedImage userInstruction =
     (case getClient h of
        Inl e \<Rightarrow> ([], Inl e)
      | Inr ai \<Rightarrow>
          (case generateContent h 0 (analysis_request annotatedImage userInstruction) of
             Inl e \<Rightarrow> ([analysis_request annotatedImage userInstruction], Inl e)
           | Inr response \<Rightarrow>
               ([analysis_request annotatedImage userInstruction],
                Inr (or_default (first_text response) userInstruction))))"

text \<open>The text part of the edit request, with and without a mask.\<close>

definition masked_edit_text :: "string \<Rightarrow> string" where
  "masked_edit_text finalInstruction = concat
   [''Edit this image based on the following instruction. The bright green annotations show the areas to modify: '', finalInstruction, ''. '', nl,
    nl,
    ''IMPORTANT: '', nl,
    ''- PRESERVE all original details, elements, colors, text, and composition EXACTLY as they are'', nl,
    ''- ONLY modify the specific areas marked with bright green annotations'', nl,
    ''- DO NOT remove or change anything unless explicitly instructed to do so'', nl,
    ''- Remove all green annotations from the final result and return a clean edited image'', nl,
    ''- Keep the same style, quality, and overall look of the original'']"

definition plain_edit_text :: "string \<Rightarrow> string" where
  "plain_edit_text finalInstruction = concat
   [finalInstruction, nl,
    nl,
    ''IMPORTANT:'', nl,
    ''- PRESERVE all original details, elements, colors, text, and composition EXACTLY as they are  '', nl,
    ''- ONLY make the specific changes requested in the instruction'', nl,
    ''- DO NOT remove or change anything unless explicitly instructed to do so'', nl,
    ''- Keep the same style, quality, and overall look of the original'']"

definition edit_request :: "string \<Rightarrow> bool \<Rightarrow> string \<Rightarrow> gen_request" where
  "edit_request imageToUse hasMask finalInstruction =
     \<lparr>model = ''gemini-3-pro-image-preview'',
      parts = [InlinePart ''image/png'' (split_comma_1 imageToUse),
               TextPart (if hasMask then masked_edit_text finalInstruction
                         else plain_edit_text finalInstruction)],
      aspectRatio = None,
      imageSize = Some ''512''\<rparr>"

text \<open>The request to the image model, sent as the \<open>k\<close>-th service call, and the scan of its
  response.\<close>

definition apply_edit ::
  "host \<Rightarrow> nat \<Rightarrow> gen_request \<Rightarrow> gen_request list \<times> (error + string)" where
  "apply_edit h k req =
     (case generateContent h k req of
        Inl e \<Rightarrow> ([req], Inl e)
      | Inr response \<Rightarrow>
          (case first_image (case first_parts response of None \<Rightarrow> [] | Some ps \<Rightarrow> ps) of
             Some url \<Rightarrow> ([req], Inr url)
           | None \<Rightarrow> ([req], Inl (Error ''Editing failed''))))"

text \<open>\<^verbatim>\<open>editAsset\<close> of the later revision.\<close>

definition editAsset_annotated ::
  "host \<Rightarrow> string \<Rightarrow> string option \<Rightarrow> string \<Rightarrow> gen_request list \<times> (error + string)" where
  "editAsset_annotated h originalImage maskImage instruction =
     (case getClient h of
        Inl e \<Rightarrow> ([], Inl e)
      | Inr ai \<Rightarrow>
          if truthy maskImage then
            (case analyzeAnnotations h (tpl maskImage) instruction of
               (sent, Inl e) \<Rightarrow> (sent, Inl e)
             | (sent, Inr finalInstruction) \<Rightarrow>
                 (let (sent', r) = apply_edit h 1 (edit_request (tpl maskImage) True finalInstruction)
                  in (sent @ sent', r)))
          else apply_edit h 0 (edit_request originalImage False instruction))"

text \<open>
  \<^verbatim>\<open>editAsset\<close> of the first revision: the instruction goes out as it is, followed by the
  mask and one sentence about it when a mask is given.
\<close>

definition editAsset ::
  "host \<Rightarrow> string \<Rightarrow> string option \<Rightarrow> string \<Rightarrow> gen_request list \<times> (error + string)" where
  "editAsset h originalImage maskImage instruction =
     (case getClient h of
        Inl e \<Rightarrow> ([], Inl e)
      | Inr ai \<Rightarrow>
          apply_edit h 0
            \<lparr>model = ''gemini-3-pro-image-preview'',
             parts =
               [InlinePart ''image/png'' (split_comma_1 originalImage), TextPart instruction]
               @ (if truthy maskImage
                  then [InlinePart ''image/png'' (split_comma_1 (tpl maskImage)),
                        TextPart ''Use the second image as a sketch/mask guidance for the changes.'']
                  else []),
             aspectRatio = None,
             imageSize = None\<rparr>)"

text \<open>Whether a request carries a text part that includes \<open>d\<close>.\<close>

definition says :: "gen_request \<Rightarrow> string \<Rightarrow> bool" where
  "says req d = list_ex (\<lambda>p. case p of TextPart t \<Rightarrow> includes_str t d | InlinePart m i \<Rightarrow> False) (parts req)"

subsection \<open>Prompt composer\<close>

text \<open>\<^verbatim>\<open>getGarmentDetails\<close>, the local function of \<^verbatim>\<open>buildPrompt\<close>.\<close>

definition getGarmentDetails :: "string \<Rightarrow> string" where
  "getGarmentDetails subtype =
     (let st = toLowerCase subtype
      in if includes_str st ''hoodie'' then
           ''A pullover hoodie with a drawstring hood, kangaroo front pocket, and ribbed cuffs and hem. This is specifically a HOODIE with long sleeves and a hood, NOT a t-shirt.''
         else if includes_str st ''t-shirt'' \<or> includes_str st ''tshirt'' then
           ''A short-sleeved t-shirt with a crew neck. This is specifically a T-SHIRT with short sleeves and no hood, NOT a hoodie.''
         else if includes_str st ''cap'' \<or> includes_str st ''hat'' then
           ''A baseball cap with curved brim and adjustable back strap.''
         else if includes_str st ''tote'' then
           ''A canvas tote bag with sturdy handles.''
         else if includes_str st ''mug'' then
           ''A ceramic coffee mug with a handle.''
         else concat [''A '', subtype])"

definition logoInstruction_of :: "BrandDNA \<Rightarrow> string" where
  "logoInstruction_of dna =
     (if truthy (logoImage dna) then
        ''IMPORTANT: Incorporate the provided Logo image into the design. It should be clearly visible, undistorted, and placed appropriately for this item.''
      else concat [''The design incorporates the brand name '', dq, name dna, dq, '' stylized as a logo.''])"

text \<open>The templates of the three \<^verbatim>\<open>case\<close> branches, of \<^verbatim>\<open>default\<close>, and of \<^verbatim>\<open>finalPrompt\<close>.\<close>

definition merchandise_template ::
  "BrandDNA \<Rightarrow> string \<Rightarrow> string \<Rightarrow> string \<Rightarrow> string \<Rightarrow> string \<Rightarrow> string" where
  "merchandise_template dna subtype garmentDetails primaryColor accentColor logoInstruction = concat
     [nl,
      ''        CRITICAL INSTRUCTION: You MUST generate exactly a '', dq, subtype, dq, '' and nothing else. Pay careful attention to the garment type.'', nl,
      ''        '', nl,
      ''        '', garmentDetails, nl,
      ''        '', nl,
      ''        PRODUCT DETAILS:'', nl,
      ''        - Item: '', subtype, '' (follow the exact specifications above)'', nl,
      ''        - Base fabric/material color: '', primaryColor, nl,
      ''        - Features a bold, eye-catching graphic design printed on the front'', nl,
      ''        - Material: High-quality, premium fabric/material with visible texture'', nl,
      ''        - Photography style: Professional product photography, studio setting'', nl,
      ''        - Background: Clean, neutral (white or light gray)'', nl,
      ''        - Lighting: Soft, even studio lighting with subtle shadows'', nl,
      ''        - Resolution: 4K quality with highly detailed fabric/material texture'', nl,
      ''        '', nl,
      ''        DESIGN ELEMENTS:'', nl,
      ''        '', logoInstruction, nl,
      ''        - Design vibe: '', visualEssence dna, nl,
      ''        - Accent color in design: '', accentColor, nl,
      ''        - Design should be centered and prominent'', nl,
      ''        '', nl,
      ''        CRITICAL: This must be a '', subtype, '', not any other garment type. Verify the garment matches '', dq, subtype, dq, '' exactly.'', nl,
      ''      '']"

definition marketing_template :: "BrandDNA \<Rightarrow> string \<Rightarrow> string \<Rightarrow> string" where
  "marketing_template dna subtype logoInstruction = concat
     [nl,
      ''        A professional '', subtype, '' design for the brand '', dq, name dna, dq, ''.'', nl,
      ''        Layout: Modern, clean, and high-impact.'', nl,
      ''        '', logoInstruction, nl,
      ''        Visuals: Incorporate the brand colors ('', join '', '' (colors dna), '') and typography ('', typography dna, '').'', nl,
      ''        Content: It should convey the vibe: '', visualEssence dna, ''.'', nl,
      ''      '']"

definition digital_template :: "BrandDNA \<Rightarrow> string \<Rightarrow> string \<Rightarrow> string" where
  "digital_template dna subtype logoInstruction = concat
     [nl,
      ''        A digital asset: '', subtype, '' for the brand '', dq, name dna, dq, ''.'', nl,
      ''        Style: Optimized for screens, UI/UX friendly, digital art style.'', nl,
      ''        '', logoInstruction, nl,
      ''        Colors: '', join '', '' (colors dna), ''.'', nl,
      ''        Vibe: '', visualEssence dna, ''.'', nl,
      ''      '']"

definition default_template :: "BrandDNA \<Rightarrow> string \<Rightarrow> string" where
  "default_template dna subtype = concat
     [''A creative brand asset ('', subtype, '') for '', dq, name dna, dq, ''.'']"

definition final_template :: "BrandDNA \<Rightarrow> string \<Rightarrow> string \<Rightarrow> string \<Rightarrow> string" where
  "final_template dna basePrompt instructionLine inspirationCues = concat
     [nl,
      ''    '', basePrompt, nl,
      ''    '', instructionLine, nl,
      ''    '', nl,
      ''    BRAND DNA CONTEXT:'', nl,
      ''    - Keywords: '', join '', '' (brand_keywords dna), nl,
      ''    '', nl,
      ''    INSPIRATION CUES (Apply these artistic styles to the graphic design/layout):'', nl,
      ''    '', inspirationCues, nl,
      ''    '', nl,
      ''    REQUIREMENTS:'', nl,
      ''    - Realism: Photorealistic (unless specified otherwise).'', nl,
      ''    - Quality: Production ready, sharp focus.'', nl,
      ''    - Consistency: Adhere strictly to the color palette.'', nl,
      ''  '']"

text \<open>What \<^verbatim>\<open>buildPrompt\<close> writes with \<^verbatim>\<open>console.log\<close>: the settings object and the prompt.\<close>

datatype console_entry =
  PromptBuilder AssetType string string "string list" bool nat nat
    \<comment> \<open>type, subtype, brandName, colors, hasLogo, inspirationCount, promptLength\<close>
| FullPrompt string

text \<open>The value of \<^verbatim>\<open>finalPrompt\<close>.\<close>

definition finalPrompt ::
  "BrandDNA \<Rightarrow> Inspiration list \<Rightarrow> AssetType \<Rightarrow> string \<Rightarrow> string option \<Rightarrow> string" where
  "finalPrompt dna inspirations type subtype specificInstruction =
     (let inspirationCues = join ''; '' (map (\<lambda>i. join '', '' (extractedCues i)) inspirations);
          primaryColor = or_default (nth_opt (colors dna) 0) ''white'';
          accentColor = or_default (nth_opt (colors dna) 1) ''black'';
          logoInstruction = logoInstruction_of dna;
          basePrompt =
            (case type of
               MERCHANDISE \<Rightarrow>
                 merchandise_template dna subtype (getGarmentDetails subtype)
                   primaryColor accentColor logoInstruction
             | MARKETING \<Rightarrow> marketing_template dna subtype logoInstruction
             | DIGITAL \<Rightarrow> digital_template dna subtype logoInstruction
             | VIDEO \<Rightarrow> default_template dna subtype)
      in final_template dna basePrompt
           (if truthy specificInstruction then ''Instruction: '' @ tpl specificInstruction else [])
           inspirationCues)"

text \<open>\<^verbatim>\<open>buildPrompt\<close>: the console entries it writes, in order, and the prompt it returns.\<close>

definition buildPrompt ::
  "BrandDNA \<Rightarrow> Inspiration list \<Rightarrow> AssetType \<Rightarrow> string \<Rightarrow> string option
     \<Rightarrow> console_entry list \<times> string" where
  "buildPrompt dna inspirations type subtype specificInstruction =
     (let p = finalPrompt dna inspirations type subtype specificInstruction
      in ([PromptBuilder type subtype (name dna) (colors dna) (truthy (logoImage dna))
             (length inspirations) (js_length p),
           FullPrompt p],
          p))"

subsection \<open>Draft fan-out\<close>

text \<open>The rejected promises of a list, each with its number, and the values of the others.\<close>

fun rejections :: "nat \<Rightarrow> (error + 'a) list \<Rightarrow> (nat \<times> error) list" where
  "rejections k [] = []"
| "rejections k (Inl e # rs) = (k, e) # rejections (Suc k) rs"
| "rejections k (Inr x # rs) = rejections (Suc k) rs"

fun fulfilments :: "(error + 'a) list \<Rightarrow> 'a list" where
  "fulfilments [] = []"
| "fulfilments (Inl e # rs) = fulfilments rs"
| "fulfilments (Inr x # rs) = x # fulfilments rs"

text \<open>
  \<^verbatim>\<open>await Promise.all(promises)\<close>: the values in request order when every promise is
  fulfilled; otherwise the rejection that happens first, which is the host's choice among
  the rejected ones (the first in request order should the host name none of them).
\<close>

definition await_all :: "host \<Rightarrow> (error + 'a) list \<Rightarrow> error + 'a list" where
  "await_all h rs =
     (case rejections 0 rs of
        [] \<Rightarrow> Inr (fulfilments rs)
      | (k, e) # others \<Rightarrow>
          (case map_of ((k, e) # others) (settles_first h (k # map fst others)) of
             Some e' \<Rightarrow> Inl e'
           | None \<Rightarrow> Inl e))"

text \<open>The inner \<^verbatim>\<open>forEach\<close>: one data URL for each part that carries inline data.\<close>

fun part_images :: "rpart list \<Rightarrow> string list" where
  "part_images [] = []"
| "part_images (p # ps) =
     (case inlineData p of
        Some d \<Rightarrow> (''data:image/png;base64,'' @ tpl (data d)) # part_images ps
      | None \<Rightarrow> part_images ps)"

definition response_images :: "gen_response \<Rightarrow> string list" where
  "response_images res = (case first_parts res of None \<Rightarrow> [] | Some ps \<Rightarrow> part_images ps)"

definition draft_request :: "BrandDNA \<Rightarrow> string \<Rightarrow> gen_request" where
  "draft_request dna promptText =
     \<lparr>model = ''gemini-3-pro-image-preview'',
      parts =
        [TextPart promptText]
        @ (if truthy (logoImage dna)
           then [InlinePart ''image/png'' (split_comma_1 (tpl (logoImage dna))),
                 TextPart ''Use the image above as the Brand Logo referenced in the prompt. Place it naturally on the product.'']
           else []),
      aspectRatio = Some ''1:1'',
      imageSize = None\<rparr>"

text \<open>\<^verbatim>\<open>generateDrafts\<close>: the requests it sent, in order, and its result.\<close>

definition generateDrafts ::
  "host \<Rightarrow> BrandDNA \<Rightarrow> Inspiration list \<Rightarrow> AssetType \<Rightarrow> string
     \<Rightarrow> gen_request list \<times> (error + string list)" where
  "generateDrafts h dna inspirations type subtype =
     (case getClient h of
        Inl e \<Rightarrow> ([], Inl e)
      | Inr ai \<Rightarrow>
          (let promptText =
                 snd (buildPrompt dna inspirations type subtype
                        (Some ''Create 4 distinct variations.''));
               req = draft_request dna promptText;
               promises = map (\<lambda>k. generateContent h k req) [0..<4]
           in case await_all h promises of
                Inl e \<Rightarrow> (replicate 4 req, Inl e)
              | Inr responses \<Rightarrow> (replicate 4 req, Inr (concat (map response_images responses)))))"

subsection \<open>The brand form's submit handler\<close>

record form_data =
  form_name :: string
  form_description :: string
  form_url :: string

text \<open>
  The state of \<^verbatim>\<open>BrandManager\<close> that \<^verbatim>\<open>handleSubmit\<close> reads and writes, with the calls of
  the \<^verbatim>\<open>onSave\<close> property and of \<^verbatim>\<open>alert\<close> it made, in order.
\<close>

record brand_manager =
  isEditing :: bool
  isGenerating :: bool
  loadingStatus :: string
  logoError :: "string option"
  logoPreview :: "string option"
  formData :: form_data
  saved :: "BrandDNA list"
  alerts :: "string list"

definition extraction_warning :: string where
  "extraction_warning =
     [CHR 0xE2, CHR 0x9A, CHR 0xA0, CHR 0xEF, CHR 0xB8, CHR 0x8F]
     @ '' Auto-extraction failed. Please upload logo manually to prevent random generation.''"

text \<open>
  \<^verbatim>\<open>handleSubmit\<close>. \<open>result\<close> is what the awaited \<^verbatim>\<open>generateBrandDNA\<close> call settles to;
  the status texts that call reports while it runs are not followed.
\<close>

definition handleSubmit :: "error + BrandDNA \<Rightarrow> brand_manager \<Rightarrow> brand_manager" where
  "handleSubmit outcome st =
     (let st1 = st\<lparr>logoError := None, isGenerating := True,
                    loadingStatus := ''Initializing Agent...''\<rparr>
      in case outcome of
           Inl e \<Rightarrow>
             st1\<lparr>alerts := alerts st1 @ [''Failed to create Brand DNA. Please try again.''],
                 isGenerating := False\<rparr>
         | Inr result \<Rightarrow>
             if form_url (formData st) \<noteq> [] \<and> \<not> truthy (logoImage result)
                \<and> \<not> truthy (logoPreview st)
             then st1\<lparr>logoError := Some extraction_warning, isGenerating := False\<rparr>
             else
               (let finalDNA = result\<lparr>logoImage := or_js (logoPreview st) (logoImage result)\<rparr>
                in st1\<lparr>saved := saved st1 @ [finalDNA],
                       logoPreview := logoImage finalDNA,
                       isEditing := False,
                       isGenerating := False\<rparr>))"

subsection \<open>Hosts to run the functions on\<close>

text \<open>
  A URL parser for the hosts below. It accepts \<^verbatim>\<open>https\<close> references only and returns
  what stands between the scheme and the next slash; anything else is an invalid URL, as
  a reference without a scheme is for \<^verbatim>\<open>new URL\<close>.
\<close>

definition https_hostname :: "string \<Rightarrow> error + string" where
  "https_hostname s =
     (if startsWith s ''https://'' then Inr (takeWhile (\<lambda>c. c \<noteq> CHR ''/'') (drop 8 s))
      else Inl (HostError ''Invalid URL''))"

text \<open>A host with a credential whose network and service reject every call.\<close>

definition offline_host :: host where
  "offline_host =
     \<lparr>API_KEY = Some ''secret'',
      encodeURIComponent = (\<lambda>s. Inr s),
      url_hostname = https_hostname,
      fetch = (\<lambda>k u. Inl (HostError ''Failed to fetch'')),
      generateContent = (\<lambda>k r. Inl (HostError ''unavailable'')),
      generateVideos = Inl (HostError ''unavailable''),
      getVideosOperation = (\<lambda>k operation. Inl (HostError ''unavailable'')),
      settles_first = (\<lambda>ks. 0)\<rparr>"

definition png_response :: response where
  "png_response =
     \<lparr>ok = True, content_type = Some ''image/png'', blob = Inr (Some ''data:image/png;base64,AAAA'')\<rparr>"

definition html_response :: response where
  "html_response =
     \<lparr>ok = True, content_type = Some ''text/html'', blob = Inr (Some ''data:text/html;base64,AAAA'')\<rparr>"

definition not_found_response :: response where
  "not_found_response = \<lparr>ok = False, content_type = Some ''image/png'', blob = Inr None\<rparr>"

text \<open>A network whose third fetch is the first to deliver an image.\<close>

definition third_source_host :: host where
  "third_source_host =
     offline_host\<lparr>fetch := (\<lambda>k u. if k = 0 then Inr not_found_response
                                    else if k = 1 then Inr html_response
                                    else Inr png_response)\<rparr>"

text \<open>Video services: one that never reports completion, one that completes with nothing
  usable, and one that delivers a video at the third poll.\<close>

definition pending :: operation where
  "pending = \<lparr>op_done = False, generatedVideos = None\<rparr>"

definition pending_host :: host where
  "pending_host =
     offline_host\<lparr>generateVideos := Inr pending,
                  getVideosOperation := (\<lambda>k operation. Inr pending)\<rparr>"

definition empty_done_host :: host where
  "empty_done_host =
     offline_host\<lparr>generateVideos := Inr \<lparr>op_done = True, generatedVideos = Some []\<rparr>\<rparr>"


text \<open>Service answers, and a service that interprets annotations and returns an image.\<close>

definition text_response :: "string \<Rightarrow> gen_response" where
  "text_response t =
     \<lparr>candidates = Some [\<lparr>content_parts = Some [\<lparr>part_text = Some t, inlineData = None\<rparr>]\<rparr>]\<rparr>"

definition image_response :: "string \<Rightarrow> gen_response" where
  "image_response d =
     \<lparr>candidates = Some [\<lparr>content_parts =
        Some [\<lparr>part_text = None,
               inlineData = Some \<lparr>mimeType = Some ''image/png'', data = Some d\<rparr>\<rparr>]\<rparr>]\<rparr>"

definition empty_response :: gen_response where
  "empty_response = \<lparr>candidates = None\<rparr>"

definition studio_host :: host where
  "studio_host =
     offline_host\<lparr>generateContent := (\<lambda>k req.
        if model req = ''gemini-2.0-flash-exp''
        then Inr (text_response ''Recolour the highlighted mug blue'')
        else Inr (image_response ''BBBB''))\<rparr>"

definition silent_host :: host where
  "silent_host = offline_host\<lparr>generateContent := (\<lambda>k req. Inr empty_response)\<rparr>"

text \<open>A brand, and the form as it is before the first submit, without a website.\<close>

definition new_form :: brand_manager where
  "new_form =
     \<lparr>isEditing = True, isGenerating = False, loadingStatus = ''Initializing...'',
      logoError = None, logoPreview = None,
      formData = \<lparr>form_name = ''Acme'', form_description = ''Rocket skates'', form_url = []\<rparr>,
      saved = [], alerts = []\<rparr>"

definition acme :: BrandDNA where
  "acme =
     \<lparr>name = ''Acme'', description = ''Rocket skates'', websiteUrl = None,
      colors = [''#ff0000'', ''#000000''], typography = ''Bold sans'', visualEssence = ''Fast'',
      designSystem = ''Use red'', brand_keywords = [''speed'', ''fun''], logoImage = None\<rparr>"

text \<open>Image services: one whose every response carries two images, and one that answers
  the first and third request with an image and the other two with nothing.\<close>

definition two_image_response :: gen_response where
  "two_image_response =
     \<lparr>candidates = Some [\<lparr>content_parts =
        Some [\<lparr>part_text = None,
               inlineData = Some \<lparr>mimeType = Some ''image/png'', data = Some ''AAAA''\<rparr>\<rparr>,
              \<lparr>part_text = None,
               inlineData = Some \<lparr>mimeType = Some ''image/png'', data = Some ''BBBB''\<rparr>\<rparr>]\<rparr>]\<rparr>"

definition two_image_host :: host where
  "two_image_host = offline_host\<lparr>generateContent := (\<lambda>k req. Inr two_image_response)\<rparr>"

definition partial_host :: host where
  "partial_host =
     offline_host\<lparr>generateContent := (\<lambda>k req.
        if k = 0 then Inr (image_response ''AAAA'')
        else if k = 2 then Inr (image_response ''CCCC'')
        else Inr empty_response)\<rparr>"

text \<open>A network that delivers an image for every fetch.\<close>

definition all_png_host :: host where
  "all_png_host = offline_host\<lparr>fetch := (\<lambda>k u. Inr png_response)\<rparr>"

text \<open>An image service that rejects the second request and answers the others with an
  image.\<close>

definition one_rejects_host :: host where
  "one_rejects_host =
     offline_host\<lparr>generateContent := (\<lambda>k req.
        if k = 1 then Inl (HostError ''429 quota'') else Inr (image_response ''AAAA''))\<rparr>"

section \<open>Properties\<close>

subsection \<open>Media fetch and logo resolution\<close>

lemma fetchImageToBase64_total: "\<exists>v. fetchImageToBase64 h k url = Inr v"
  by (simp add: fetchImageToBase64_def split: sum.splits)

text \<open>
  C5. \<^verbatim>\<open>fetchImageToBase64\<close> never raises: it always returns a value. It returns
  \<^verbatim>\<open>undefined\<close> when the URL cannot be encoded, when \<^verbatim>\<open>fetch\<close> rejects (any network
  exception), when the response is not 2xx, when the content-type header is missing or
  empty, when it does not start with \<^verbatim>\<open>image/\<close>, and when reading the body rejects.
\<close>

theorem fetchImageToBase64_fails_closed:
  "(\<exists>v. fetchImageToBase64 h k url = Inr v) \<and>
   (\<forall>e. encodeURIComponent h url = Inl e \<longrightarrow> fetchImageToBase64 h k url = Inr Undefined) \<and>
   (\<forall>enc. encodeURIComponent h url = Inr enc \<longrightarrow>
      (\<forall>e. fetch h k (''https://corsproxy.io/?'' @ enc) = Inl e \<longrightarrow>
           fetchImageToBase64 h k url = Inr Undefined) \<and>
      (\<forall>r. fetch h k (''https://corsproxy.io/?'' @ enc) = Inr r \<longrightarrow>
           (\<not> ok r \<longrightarrow> fetchImageToBase64 h k url = Inr Undefined) \<and>
           (\<not> truthy (content_type r) \<longrightarrow> fetchImageToBase64 h k url = Inr Undefined) \<and>
           (\<not> startsWith (tpl (content_type r)) ''image/'' \<longrightarrow>
              fetchImageToBase64 h k url = Inr Undefined) \<and>
           (\<forall>e. blob r = Inl e \<longrightarrow> fetchImageToBase64 h k url = Inr Undefined)))"
  by (auto simp: fetchImageToBase64_def fetchImageToBase64_try_def Let_def split: sum.splits option.splits)

theorem fetchImageToBase64_fails_closed_witness:
  "fetchImageToBase64 offline_host 0 ''https://example.com/logo.png'' = Inr Undefined \<and>
   fetchImageToBase64 third_source_host 0 ''https://example.com/logo.png'' = Inr Undefined \<and>
   fetchImageToBase64 third_source_host 1 ''https://example.com/logo.png'' = Inr Undefined \<and>
   fetchImageToBase64 third_source_host 2 ''https://example.com/logo.png''
     = Inr (DataUrl ''data:image/png;base64,AAAA'')"
  using fetchImageToBase64_fails_closed [of offline_host 0 "''https://example.com/logo.png''"]
    fetchImageToBase64_fails_closed [of third_source_host 0 "''https://example.com/logo.png''"]
  by (simp add: fetchImageToBase64_def fetchImageToBase64_try_def third_source_host_def
      offline_host_def png_response_def html_response_def not_found_response_def truthy_def tpl_def)

lemma try_sources_no_error: "\<exists>v. snd (try_sources h k us) = Inr v"
proof (induction us arbitrary: k)
  case Nil
  show ?case by simp
next
  case (Cons u us)
  obtain v where v: "fetchImageToBase64 h k u = Inr v"
    using fetchImageToBase64_total by blast
  obtain t r where tr: "try_sources h (Suc k) us = (t, r)"
    by (cases "try_sources h (Suc k) us")
  from Cons [of "Suc k"] tr obtain v' where "r = Inr v'" by auto
  with v tr show ?case by simp
qed

lemma sources_distinct: "distinct (sources d)"
  by (simp add: sources_def)

text \<open>
  C4, as stated, fails: a website reference that \<^verbatim>\<open>new URL\<close> rejects, such as a domain
  typed without its scheme, is answered with \<^verbatim>\<open>undefined\<close> although no source was
  tried and each of the three would have resolved.
\<close>

theorem fetchLogoFromUrl_counterexample:
  "fetchLogoFromUrl all_png_host ''example.com'' = ([], Inr Undefined)
   \<and> source_resolves all_png_host 0
        ''https://www.google.com/s2/favicons?domain=example.com&sz=128''
   \<and> source_resolves all_png_host 1 ''https://icons.duckduckgo.com/ip3/example.com.ico''
   \<and> source_resolves all_png_host 2 ''https://logo.clearbit.com/example.com''"
  by (simp add: fetchLogoFromUrl_def source_resolves_def fetchImageToBase64_def
      fetchImageToBase64_try_def all_png_host_def offline_host_def https_hostname_def
      png_response_def truthy_def tpl_def resolved_def)

text \<open>
  C4, amended. For a website reference that parses as a URL, \<^verbatim>\<open>fetchLogoFromUrl\<close> tries
  the favicon service, then the icon-by-domain service, then the brand-logo-by-domain
  service, each for the reference's domain, each at most once and only while the earlier
  ones did not resolve; it returns the first resolved image, and \<^verbatim>\<open>undefined\<close> only when
  none of the three resolves. For a reference that does not parse as a URL it tries no
  source and returns \<^verbatim>\<open>undefined\<close>. It never raises.
\<close>

theorem fetchLogoFromUrl_chain:
  "(\<forall>d. url_hostname h w = Inr d \<longrightarrow>
      fetchLogoFromUrl h w =
        (let favicon = ''https://www.google.com/s2/favicons?domain='' @ d @ ''&sz=128'';
             icon = ''https://icons.duckduckgo.com/ip3/'' @ d @ ''.ico'';
             logo = ''https://logo.clearbit.com/'' @ d
         in if source_resolves h 0 favicon
            then ([favicon], fetchImageToBase64 h 0 favicon)
            else if source_resolves h 1 icon
            then ([favicon, icon], fetchImageToBase64 h 1 icon)
            else if source_resolves h 2 logo
            then ([favicon, icon, logo], fetchImageToBase64 h 2 logo)
            else ([favicon, icon, logo], Inr Undefined)))
   \<and> (\<forall>e. url_hostname h w = Inl e \<longrightarrow> fetchLogoFromUrl h w = ([], Inr Undefined))
   \<and> (\<exists>v. snd (fetchLogoFromUrl h w) = Inr v)
   \<and> distinct (fst (fetchLogoFromUrl h w))"
proof -
  have valid: "fetchLogoFromUrl h w =
        (let favicon = ''https://www.google.com/s2/favicons?domain='' @ d @ ''&sz=128'';
             icon = ''https://icons.duckduckgo.com/ip3/'' @ d @ ''.ico'';
             logo = ''https://logo.clearbit.com/'' @ d
         in if source_resolves h 0 favicon
            then ([favicon], fetchImageToBase64 h 0 favicon)
            else if source_resolves h 1 icon
            then ([favicon, icon], fetchImageToBase64 h 1 icon)
            else if source_resolves h 2 logo
            then ([favicon, icon, logo], fetchImageToBase64 h 2 logo)
            else ([favicon, icon, logo], Inr Undefined))"
    if d: "url_hostname h w = Inr d" for d
  proof -
    obtain v0 where v0: "fetchImageToBase64 h 0
        (''https://www.google.com/s2/favicons?domain='' @ d @ ''&sz=128'') = Inr v0"
      using fetchImageToBase64_total by blast
    obtain v1 where v1: "fetchImageToBase64 h (Suc 0)
        (''https://icons.duckduckgo.com/ip3/'' @ d @ ''.ico'') = Inr v1"
      using fetchImageToBase64_total by blast
    obtain v2 where v2: "fetchImageToBase64 h (Suc (Suc 0))
        (''https://logo.clearbit.com/'' @ d) = Inr v2"
      using fetchImageToBase64_total by blast
    have two: "(2::nat) = Suc (Suc 0)" by simp
    from d v0 v1 v2 show ?thesis
      by (simp add: fetchLogoFromUrl_def sources_def source_resolves_def two Let_def)
  qed
  have invalid: "fetchLogoFromUrl h w = ([], Inr Undefined)" if "url_hostname h w = Inl e" for e
    using that by (simp add: fetchLogoFromUrl_def)
  have total: "\<exists>v. snd (fetchLogoFromUrl h w) = Inr v"
    by (auto simp: fetchLogoFromUrl_def split: sum.splits prod.splits)
  have dist: "distinct (fst (fetchLogoFromUrl h w))"
  proof (cases "url_hostname h w")
    case (Inl e)
    then show ?thesis by (simp add: invalid)
  next
    case (Inr d)
    have "distinct (sources d)" by (rule sources_distinct)
    then show ?thesis
      unfolding valid [OF Inr] by (auto simp: sources_def Let_def)
  qed
  from valid invalid total dist show ?thesis by blast
qed

theorem fetchLogoFromUrl_chain_witness:
  "url_hostname third_source_host ''https://example.com/about'' = Inr ''example.com''
   \<and> fetchLogoFromUrl third_source_host ''https://example.com/about''
     = ([''https://www.google.com/s2/favicons?domain=example.com&sz=128'',
         ''https://icons.duckduckgo.com/ip3/example.com.ico'',
         ''https://logo.clearbit.com/example.com''],
        Inr (DataUrl ''data:image/png;base64,AAAA''))
   \<and> fetchLogoFromUrl all_png_host ''https://example.com/about''
     = ([''https://www.google.com/s2/favicons?domain=example.com&sz=128''],
        Inr (DataUrl ''data:image/png;base64,AAAA''))
   \<and> fetchLogoFromUrl offline_host ''https://example.com/about''
     = ([''https://www.google.com/s2/favicons?domain=example.com&sz=128'',
         ''https://icons.duckduckgo.com/ip3/example.com.ico'',
         ''https://logo.clearbit.com/example.com''], Inr Undefined)
   \<and> url_hostname offline_host ''example.com'' = Inl (HostError ''Invalid URL'')
   \<and> fetchLogoFromUrl offline_host ''example.com'' = ([], Inr Undefined)"
  using fetchLogoFromUrl_chain [of third_source_host "''https://example.com/about''"]
    fetchLogoFromUrl_chain [of all_png_host "''https://example.com/about''"]
    fetchLogoFromUrl_chain [of offline_host "''https://example.com/about''"]
    fetchLogoFromUrl_chain [of offline_host "''example.com''"]
  by (simp add: source_resolves_def fetchImageToBase64_def fetchImageToBase64_try_def
      third_source_host_def all_png_host_def offline_host_def https_hostname_def
      png_response_def html_response_def not_found_response_def truthy_def tpl_def resolved_def)

subsection \<open>Video generation and polling\<close>

declare poll_preview.simps [simp del]

lemma poll_preview_stop:
  "op_done operation \<or> 60 \<le> pollCount \<Longrightarrow> poll_preview h pollCount operation evs = (evs, Inr operation)"
  by (subst poll_preview.simps) auto

lemma poll_preview_step:
  "\<not> op_done operation \<Longrightarrow> pollCount < 60 \<Longrightarrow>
   poll_preview h pollCount operation evs =
     (case getVideosOperation h pollCount operation of
        Inl e \<Rightarrow> (evs @ [Sleep 5000, Poll pollCount], Inl e)
      | Inr operation' \<Rightarrow>
          poll_preview h (Suc pollCount) operation' (evs @ [Sleep 5000, Poll pollCount]))"
  by (subst poll_preview.simps) simp

lemma rounds_step: "k < n \<Longrightarrow> rounds k n = [Sleep 5000, Poll k] @ rounds (Suc k) n"
  by (simp add: rounds_def upt_conv_Cons)

lemma rounds_empty: "rounds k k = []"
  by (simp add: rounds_def)

lemma poll_preview_events:
  "pollCount \<le> 60 \<Longrightarrow>
   \<exists>n. pollCount \<le> n \<and> n \<le> 60 \<and> fst (poll_preview h pollCount operation evs) = evs @ rounds pollCount n"
proof (induction h pollCount operation evs rule: poll_preview.induct)
  case (1 h pollCount operation evs)
  show ?case
  proof (cases "\<not> op_done operation \<and> pollCount < 60")
    case False
    then have "poll_preview h pollCount operation evs = (evs, Inr operation)"
      by (intro poll_preview_stop) auto
    with "1.prems" show ?thesis
      by (intro exI [of _ pollCount]) (simp add: rounds_empty)
  next
    case True
    show ?thesis
    proof (cases "getVideosOperation h pollCount operation")
      case (Inl e)
      with True have "poll_preview h pollCount operation evs = (evs @ [Sleep 5000, Poll pollCount], Inl e)"
        by (simp add: poll_preview_step)
      with True show ?thesis
        by (intro exI [of _ "Suc pollCount"]) (simp add: rounds_step rounds_empty)
    next
      case (Inr operation')
      with True have eq: "poll_preview h pollCount operation evs
          = poll_preview h (Suc pollCount) operation' (evs @ [Sleep 5000, Poll pollCount])"
        by (simp add: poll_preview_step)
      from True have "Suc pollCount \<le> 60" by simp
      from "1.IH" [OF True Inr this] obtain n where
        n: "Suc pollCount \<le> n" "n \<le> 60"
           "fst (poll_preview h (Suc pollCount) operation' (evs @ [Sleep 5000, Poll pollCount]))
              = (evs @ [Sleep 5000, Poll pollCount]) @ rounds (Suc pollCount) n"
        by blast
      from n(1) have "pollCount < n" by simp
      with n eq show ?thesis
        by (intro exI [of _ n]) (simp add: rounds_step)
    qed
  qed
qed

lemma poll_preview_never_done:
  "never_completes h \<Longrightarrow> pollCount \<le> 60 \<Longrightarrow> \<not> op_done operation \<Longrightarrow>
     \<not> truthy (videoUri operation) \<Longrightarrow>
     \<exists>operation'. poll_preview h pollCount operation evs = (evs @ rounds pollCount 60, Inr operation')
        \<and> \<not> truthy (videoUri operation')"
proof (induction h pollCount operation evs rule: poll_preview.induct)
  case (1 h pollCount operation evs)
  show ?case
  proof (cases "pollCount < 60")
    case False
    with "1.prems" have "pollCount = 60" by simp
    then show ?thesis using "1.prems"
      by (simp add: poll_preview_stop rounds_empty)
  next
    case True
    from "1.prems"(1) obtain operation' where
      op': "getVideosOperation h pollCount operation = Inr operation'"
           "\<not> op_done operation'" "\<not> truthy (videoUri operation')"
      unfolding never_completes_def by blast
    have c: "\<not> op_done operation \<and> pollCount < 60" using True "1.prems" by simp
    from True have "Suc pollCount \<le> 60" by simp
    from "1.IH" [OF c op'(1) "1.prems"(1) this op'(2) op'(3)]
    obtain operation'' where
      "poll_preview h (Suc pollCount) operation' (evs @ [Sleep 5000, Poll pollCount])
         = ((evs @ [Sleep 5000, Poll pollCount]) @ rounds (Suc pollCount) 60, Inr operation'')"
      "\<not> truthy (videoUri operation'')"
      by blast
    with c op'(1) True show ?thesis
      by (simp add: poll_preview_step rounds_step)
  qed
qed

lemma poll_visualization_never_done:
  assumes "poll_visualization h pollCount operation evs = Some y"
  shows "\<not> (never_completes h \<and> \<not> op_done operation)"
proof (rule poll_visualization.raw_induct
    [where P = "\<lambda>h pollCount operation evs y. \<not> (never_completes h \<and> \<not> op_done operation)",
      OF _ assms])
  fix poll h pollCount operation evs and r :: "event list \<times> (error + operation)"
  assume IH: "\<And>h pollCount operation evs y. poll h pollCount operation evs = Some y
                \<Longrightarrow> \<not> (never_completes h \<and> \<not> op_done operation)"
    and body: "(if \<not> op_done operation
      then case getVideosOperation h pollCount operation of
           Inl e \<Rightarrow> Some (evs @ [Sleep 5000, Poll pollCount], Inl e)
           | Inr operation' \<Rightarrow> poll h (Suc pollCount) operation' (evs @ [Sleep 5000, Poll pollCount])
      else Some (evs, Inr operation)) = Some r"
  show "\<not> (never_completes h \<and> \<not> op_done operation)"
  proof
    assume a: "never_completes h \<and> \<not> op_done operation"
    then obtain operation' where
      op': "getVideosOperation h pollCount operation = Inr operation'" "\<not> op_done operation'"
      unfolding never_completes_def by blast
    with a body have "poll h (Suc pollCount) operation' (evs @ [Sleep 5000, Poll pollCount]) = Some r"
      by simp
    from IH [OF this] a op'(2) show False by simp
  qed
qed

lemma poll_visualization_diverges:
  "never_completes h \<Longrightarrow> \<not> op_done operation \<Longrightarrow> poll_visualization h pollCount operation evs = None"
  using poll_visualization_never_done [of h pollCount operation evs]
  by (cases "poll_visualization h pollCount operation evs") auto

lemma never_completes_pending_host: "never_completes pending_host"
  by (simp add: never_completes_def pending_host_def offline_host_def pending_def videoUri_def truthy_def)

text \<open>
  C2, as stated, fails. With a service that never reports completion,
  \<^verbatim>\<open>generateRealWorldPreview\<close> stops after 60 polls with the error
  \<^verbatim>\<open>Preview generation failed\<close>, the very error it raises for a job that completed without
  a video, and \<^verbatim>\<open>generateVisualizationVideo\<close> never returns.
\<close>

theorem polling_counterexample:
  "generateRealWorldPreview pending_host = (rounds 0 60, Inl (Error ''Preview generation failed''))
   \<and> generateRealWorldPreview empty_done_host = ([], Inl (Error ''Preview generation failed''))
   \<and> generateVisualizationVideo pending_host = None"
proof -
  have p: "\<not> op_done pending" "\<not> truthy (videoUri pending)"
    by (simp_all add: pending_def videoUri_def truthy_def)
  from poll_preview_never_done [OF never_completes_pending_host _ p, of 0 "[]"]
  obtain operation' where
    "poll_preview pending_host 0 pending [] = (rounds 0 60, Inr operation')"
    "\<not> truthy (videoUri operation')"
    by auto
  then have a: "generateRealWorldPreview pending_host
      = (rounds 0 60, Inl (Error ''Preview generation failed''))"
    by (simp add: generateRealWorldPreview_def getClient_def pending_host_def offline_host_def
        truthy_def tpl_def)
  have b: "generateRealWorldPreview empty_done_host = ([], Inl (Error ''Preview generation failed''))"
    by (simp add: generateRealWorldPreview_def getClient_def empty_done_host_def offline_host_def
        truthy_def tpl_def poll_preview_stop videoUri_def)
  have "poll_visualization pending_host 0 pending [] = None"
    using never_completes_pending_host p(1) by (rule poll_visualization_diverges)
  then have c: "generateVisualizationVideo pending_host = None"
    by (simp add: generateVisualizationVideo_def getClient_def pending_host_def offline_host_def
        truthy_def tpl_def)
  from a b c show ?thesis by simp
qed

text \<open>
  C2, amended. Every run of \<^verbatim>\<open>generateRealWorldPreview\<close> makes at most 60 polls, each
  after a sleep of 5 seconds. When the service never reports completion, the run ends
  after exactly 60 polls with the error \<^verbatim>\<open>Preview generation failed\<close>.
\<close>

theorem preview_polling_bounded:
  "(\<exists>n\<le>60. fst (generateRealWorldPreview h) = rounds 0 n) \<and>
   (never_completes h \<longrightarrow> truthy (API_KEY h) \<longrightarrow>
      (\<forall>submitted. generateVideos h = Inr submitted \<longrightarrow> \<not> op_done submitted \<longrightarrow>
         \<not> truthy (videoUri submitted) \<longrightarrow>
         generateRealWorldPreview h = (rounds 0 60, Inl (Error ''Preview generation failed''))))"
proof
  show "\<exists>n\<le>60. fst (generateRealWorldPreview h) = rounds 0 n"
  proof (cases "getClient h")
    case (Inl e)
    then show ?thesis
      by (intro exI [of _ 0]) (simp add: generateRealWorldPreview_def rounds_empty)
  next
    case ai: (Inr ai)
    show ?thesis
    proof (cases "generateVideos h")
      case (Inl e)
      with ai show ?thesis
        by (intro exI [of _ 0]) (simp add: generateRealWorldPreview_def rounds_empty)
    next
      case (Inr submitted)
      from poll_preview_events [of 0 h submitted "[]"] obtain n where
        n: "n \<le> 60" "fst (poll_preview h 0 submitted []) = rounds 0 n"
        by auto
      have "fst (generateRealWorldPreview h) = fst (poll_preview h 0 submitted [])"
        using ai Inr
        by (simp add: generateRealWorldPreview_def split: prod.splits sum.splits)
      with n show ?thesis by auto
    qed
  qed
next
  show "never_completes h \<longrightarrow> truthy (API_KEY h) \<longrightarrow>
      (\<forall>submitted. generateVideos h = Inr submitted \<longrightarrow> \<not> op_done submitted \<longrightarrow>
         \<not> truthy (videoUri submitted) \<longrightarrow>
         generateRealWorldPreview h = (rounds 0 60, Inl (Error ''Preview generation failed'')))"
  proof (intro impI allI)
    fix submitted
    assume nc: "never_completes h" and key: "truthy (API_KEY h)"
      and sub: "generateVideos h = Inr submitted" "\<not> op_done submitted"
        "\<not> truthy (videoUri submitted)"
    from poll_preview_never_done [OF nc _ sub(2,3), of 0 "[]"] obtain operation' where
      "poll_preview h 0 submitted [] = (rounds 0 60, Inr operation')"
      "\<not> truthy (videoUri operation')"
      by auto
    with key sub(1)
    show "generateRealWorldPreview h = (rounds 0 60, Inl (Error ''Preview generation failed''))"
      by (simp add: generateRealWorldPreview_def getClient_def)
  qed
qed

theorem preview_polling_bounded_witness:
  "never_completes pending_host \<and> truthy (API_KEY pending_host)
   \<and> generateVideos pending_host = Inr pending \<and> \<not> op_done pending
   \<and> \<not> truthy (videoUri pending)
   \<and> generateRealWorldPreview pending_host = (rounds 0 60, Inl (Error ''Preview generation failed''))
   \<and> length (rounds 0 60) = 120"
  using preview_polling_bounded [of pending_host] never_completes_pending_host
  by (simp add: pending_host_def offline_host_def pending_def videoUri_def truthy_def rounds_def
      length_concat comp_def sum_list_triv)





subsection \<open>Strings\<close>

lemma startsWith_append: "startsWith (p @ b) p"
  by (induction p) auto

lemma includes_str_prefix: "startsWith s p \<Longrightarrow> includes_str s p"
  by (cases s; cases p) auto

lemma includes_str_append_left: "includes_str s p \<Longrightarrow> includes_str (a @ s) p"
  by (induction a) auto

lemma includes_str_mid: "includes_str (a @ p @ b) p"
  by (intro includes_str_append_left includes_str_prefix startsWith_append)

lemma startsWith_split: "startsWith s p \<Longrightarrow> \<exists>b. s = p @ b"
  by (induction s p rule: startsWith.induct) auto

lemma includes_str_split: "includes_str s p \<Longrightarrow> \<exists>a b. s = a @ p @ b"
proof (induction s)
  case Nil
  then show ?case by simp
next
  case (Cons c cs)
  from Cons.prems consider "startsWith (c # cs) p" | "includes_str cs p" by auto
  then show ?case
  proof cases
    case 1
    then obtain b where "c # cs = p @ b" using startsWith_split by blast
    then have "c # cs = [] @ p @ b" by simp
    then show ?thesis by blast
  next
    case 2
    with Cons.IH obtain a b where "cs = a @ p @ b" by blast
    then have "c # cs = (c # a) @ p @ b" by simp
    then show ?thesis by blast
  qed
qed

lemma includes_str_iff: "includes_str s p \<longleftrightarrow> (\<exists>a b. s = a @ p @ b)"
  using includes_str_split includes_str_mid by blast

lemma includes_str_window:
  "includes_str (concat (take n (drop k xs))) p \<Longrightarrow> includes_str (concat xs) p"
proof -
  assume "includes_str (concat (take n (drop k xs))) p"
  then obtain a b where ab: "concat (take n (drop k xs)) = a @ p @ b"
    using includes_str_split by blast
  have "xs = take k xs @ take n (drop k xs) @ drop n (drop k xs)"
    by (metis append_take_drop_id)
  then have "concat xs = concat (take k xs) @ concat (take n (drop k xs)) @ concat (drop n (drop k xs))"
    by (metis concat_append)
  with ab have "concat xs = (concat (take k xs) @ a) @ p @ (b @ concat (drop n (drop k xs)))"
    by simp
  then show ?thesis by (metis includes_str_mid)
qed

subsection \<open>Annotation interpreter and edit applier\<close>

text \<open>
  C8, as stated, fails: when the service call rejects, \<^verbatim>\<open>analyzeAnnotations\<close> rejects with
  the same error. Nothing in the function, or in \<^verbatim>\<open>editAsset\<close> around it, catches it.
\<close>

theorem analyzeAnnotations_counterexample:
  "analyzeAnnotations offline_host ''data:image/png;base64,AAAA'' ''make it blue''
     = ([analysis_request ''data:image/png;base64,AAAA'' ''make it blue''],
        Inl (HostError ''unavailable''))"
  by (simp add: analyzeAnnotations_def getClient_def offline_host_def truthy_def)

text \<open>
  C8, amended. Without a credential \<^verbatim>\<open>analyzeAnnotations\<close> raises the error of
  \<^verbatim>\<open>getClient\<close>. With one, when the service answers the result is a text: the text of
  the first part of the first candidate when there is one and it is not empty, the user's
  instruction unchanged otherwise; when the service call rejects, the error propagates.
\<close>

theorem analyzeAnnotations_result:
  "(\<forall>e. getClient h = Inl e \<longrightarrow> analyzeAnnotations h annotatedImage userInstruction = ([], Inl e))
   \<and> (truthy (API_KEY h) \<longrightarrow>
        (\<forall>response. generateContent h 0 (analysis_request annotatedImage userInstruction) = Inr response \<longrightarrow>
           snd (analyzeAnnotations h annotatedImage userInstruction)
             = Inr (if truthy (first_text response) then tpl (first_text response)
                    else userInstruction))
        \<and> (\<forall>e. generateContent h 0 (analysis_request annotatedImage userInstruction) = Inl e \<longrightarrow>
           snd (analyzeAnnotations h annotatedImage userInstruction) = Inl e))"
  by (auto simp: analyzeAnnotations_def getClient_def truthy_def tpl_def or_default_def
      split: option.splits)

theorem analyzeAnnotations_result_witness:
  "truthy (API_KEY studio_host)
   \<and> snd (analyzeAnnotations studio_host ''data:image/png;base64,AAAA'' ''make it blue'')
       = Inr ''Recolour the highlighted mug blue''
   \<and> snd (analyzeAnnotations silent_host ''data:image/png;base64,AAAA'' ''make it blue'')
       = Inr ''make it blue''
   \<and> snd (analyzeAnnotations offline_host ''data:image/png;base64,AAAA'' ''make it blue'')
       = Inl (HostError ''unavailable'')"
  using analyzeAnnotations_result [of studio_host "''data:image/png;base64,AAAA''" "''make it blue''"]
    analyzeAnnotations_result [of silent_host "''data:image/png;base64,AAAA''" "''make it blue''"]
    analyzeAnnotations_result [of offline_host "''data:image/png;base64,AAAA''" "''make it blue''"]
  by (simp add: studio_host_def silent_host_def offline_host_def analysis_request_def
      text_response_def empty_response_def first_text_def first_parts_def truthy_def tpl_def)

lemma masked_preserve:
  "includes_str (masked_edit_text i)
     ''- PRESERVE all original details, elements, colors, text, and composition EXACTLY as they are''"
  unfolding masked_edit_text_def
  by (rule includes_str_window [where k = 7 and n = 1]) simp

lemma masked_only:
  "includes_str (masked_edit_text i)
     ''- ONLY modify the specific areas marked with bright green annotations''"
  unfolding masked_edit_text_def
  by (rule includes_str_window [where k = 9 and n = 1]) simp

lemma masked_remove:
  "includes_str (masked_edit_text i)
     ''- Remove all green annotations from the final result and return a clean edited image''"
  unfolding masked_edit_text_def
  by (rule includes_str_window [where k = 13 and n = 1]) simp

lemma plain_preserve:
  "includes_str (plain_edit_text i)
     ''- PRESERVE all original details, elements, colors, text, and composition EXACTLY as they are''"
  unfolding plain_edit_text_def
  by (rule includes_str_window [where k = 5 and n = 1]) simp

lemma plain_only:
  "includes_str (plain_edit_text i)
     ''- ONLY make the specific changes requested in the instruction''"
  unfolding plain_edit_text_def
  by (rule includes_str_window [where k = 7 and n = 1]) simp

lemma plain_do_not:
  "includes_str (plain_edit_text i)
     ''- DO NOT remove or change anything unless explicitly instructed to do so''"
  unfolding plain_edit_text_def
  by (rule includes_str_window [where k = 9 and n = 1]) simp

lemma apply_edit_sent: "fst (apply_edit h k req) = [req]"
  by (simp add: apply_edit_def split: sum.splits option.splits)

text \<open>
  C3, amended: the \<^verbatim>\<open>editAsset\<close> of the revision that has the annotation interpreter.
  With a credential and a mask, the instruction first goes through
  \<^verbatim>\<open>analyzeAnnotations\<close>; if that fails nothing else is sent, otherwise the edit request
  follows, built on the interpreted instruction, and its text tells the model to preserve
  everything, to modify only the annotated areas and to remove the annotations from the
  result. Without a mask the one request sent carries the instruction and the directive
  to preserve everything and make only the requested changes.
\<close>

theorem editAsset_annotated_directives:
  assumes "truthy (API_KEY h)"
  shows "(truthy maskImage \<longrightarrow>
      (case analyzeAnnotations h (tpl maskImage) instruction of
         (sent, Inl e) \<Rightarrow> editAsset_annotated h originalImage maskImage instruction = (sent, Inl e)
       | (sent, Inr finalInstruction) \<Rightarrow>
           sent = [analysis_request (tpl maskImage) instruction] \<and>
           (\<exists>req. fst (editAsset_annotated h originalImage maskImage instruction) = sent @ [req] \<and>
              parts req = [InlinePart ''image/png'' (split_comma_1 (tpl maskImage)),
                           TextPart (masked_edit_text finalInstruction)] \<and>
              says req ''- PRESERVE all original details, elements, colors, text, and composition EXACTLY as they are'' \<and>
              says req ''- ONLY modify the specific areas marked with bright green annotations'' \<and>
              says req ''- Remove all green annotations from the final result and return a clean edited image'')))
    \<and> (\<not> truthy maskImage \<longrightarrow>
      (\<exists>req. fst (editAsset_annotated h originalImage maskImage instruction) = [req] \<and>
         parts req = [InlinePart ''image/png'' (split_comma_1 originalImage),
                      TextPart (plain_edit_text instruction)] \<and>
         says req ''- PRESERVE all original details, elements, colors, text, and composition EXACTLY as they are'' \<and>
         says req ''- ONLY make the specific changes requested in the instruction'' \<and>
         says req ''- DO NOT remove or change anything unless explicitly instructed to do so''))"
proof -
  from assms have client: "getClient h = Inr (tpl (API_KEY h))"
    by (simp add: getClient_def)
  have masked: "truthy maskImage \<longrightarrow>
      (case analyzeAnnotations h (tpl maskImage) instruction of
         (sent, Inl e) \<Rightarrow> editAsset_annotated h originalImage maskImage instruction = (sent, Inl e)
       | (sent, Inr finalInstruction) \<Rightarrow>
           sent = [analysis_request (tpl maskImage) instruction] \<and>
           (\<exists>req. fst (editAsset_annotated h originalImage maskImage instruction) = sent @ [req] \<and>
              parts req = [InlinePart ''image/png'' (split_comma_1 (tpl maskImage)),
                           TextPart (masked_edit_text finalInstruction)] \<and>
              says req ''- PRESERVE all original details, elements, colors, text, and composition EXACTLY as they are'' \<and>
              says req ''- ONLY modify the specific areas marked with bright green annotations'' \<and>
              says req ''- Remove all green annotations from the final result and return a clean edited image''))"
  proof
    assume mask: "truthy maskImage"
    obtain sent a where an: "analyzeAnnotations h (tpl maskImage) instruction = (sent, a)"
      by (cases "analyzeAnnotations h (tpl maskImage) instruction")
    show "case analyzeAnnotations h (tpl maskImage) instruction of
         (sent, Inl e) \<Rightarrow> editAsset_annotated h originalImage maskImage instruction = (sent, Inl e)
       | (sent, Inr finalInstruction) \<Rightarrow>
           sent = [analysis_request (tpl maskImage) instruction] \<and>
           (\<exists>req. fst (editAsset_annotated h originalImage maskImage instruction) = sent @ [req] \<and>
              parts req = [InlinePart ''image/png'' (split_comma_1 (tpl maskImage)),
                           TextPart (masked_edit_text finalInstruction)] \<and>
              says req ''- PRESERVE all original details, elements, colors, text, and composition EXACTLY as they are'' \<and>
              says req ''- ONLY modify the specific areas marked with bright green annotations'' \<and>
              says req ''- Remove all green annotations from the final result and return a clean edited image'')"
    proof (cases a)
      case (Inl e)
      with an mask client show ?thesis by (simp add: editAsset_annotated_def)
    next
      case (Inr finalInstruction)
      from an Inr client have sent: "sent = [analysis_request (tpl maskImage) instruction]"
        by (auto simp: analyzeAnnotations_def split: sum.splits)
      let ?req = "edit_request (tpl maskImage) True finalInstruction"
      obtain r where "apply_edit h 1 ?req = ([?req], r)"
        using apply_edit_sent [of h 1 ?req] by (cases "apply_edit h 1 ?req") simp
      with an Inr mask client
      have "fst (editAsset_annotated h originalImage maskImage instruction) = sent @ [?req]"
        by (simp add: editAsset_annotated_def)
      moreover have "parts ?req = [InlinePart ''image/png'' (split_comma_1 (tpl maskImage)),
                           TextPart (masked_edit_text finalInstruction)]"
        by (simp add: edit_request_def)
      moreover have "says ?req ''- PRESERVE all original details, elements, colors, text, and composition EXACTLY as they are''"
        by (simp add: says_def edit_request_def masked_preserve)
      moreover have "says ?req ''- ONLY modify the specific areas marked with bright green annotations''"
        by (simp add: says_def edit_request_def masked_only)
      moreover have "says ?req ''- Remove all green annotations from the final result and return a clean edited image''"
        by (simp add: says_def edit_request_def masked_remove)
      ultimately show ?thesis using an Inr sent by auto
    qed
  qed
  have plain: "\<not> truthy maskImage \<longrightarrow>
      (\<exists>req. fst (editAsset_annotated h originalImage maskImage instruction) = [req] \<and>
         parts req = [InlinePart ''image/png'' (split_comma_1 originalImage),
                      TextPart (plain_edit_text instruction)] \<and>
         says req ''- PRESERVE all original details, elements, colors, text, and composition EXACTLY as they are'' \<and>
         says req ''- ONLY make the specific changes requested in the instruction'' \<and>
         says req ''- DO NOT remove or change anything unless explicitly instructed to do so'')"
  proof
    assume nomask: "\<not> truthy maskImage"
    let ?req = "edit_request originalImage False instruction"
    have "fst (apply_edit h 0 ?req) = [?req]"
      by (rule apply_edit_sent)
    with nomask client have "fst (editAsset_annotated h originalImage maskImage instruction) = [?req]"
      by (simp add: editAsset_annotated_def)
    moreover have "parts ?req = [InlinePart ''image/png'' (split_comma_1 originalImage),
                      TextPart (plain_edit_text instruction)]"
      by (simp add: edit_request_def)
    moreover have "says ?req ''- PRESERVE all original details, elements, colors, text, and composition EXACTLY as they are''"
      by (simp add: says_def edit_request_def plain_preserve)
    moreover have "says ?req ''- ONLY make the specific changes requested in the instruction''"
      by (simp add: says_def edit_request_def plain_only)
    moreover have "says ?req ''- DO NOT remove or change anything unless explicitly instructed to do so''"
      by (simp add: says_def edit_request_def plain_do_not)
    ultimately show "\<exists>req. fst (editAsset_annotated h originalImage maskImage instruction) = [req] \<and>
         parts req = [InlinePart ''image/png'' (split_comma_1 originalImage),
                      TextPart (plain_edit_text instruction)] \<and>
         says req ''- PRESERVE all original details, elements, colors, text, and composition EXACTLY as they are'' \<and>
         says req ''- ONLY make the specific changes requested in the instruction'' \<and>
         says req ''- DO NOT remove or change anything unless explicitly instructed to do so''"
      by blast
  qed
  from masked plain show ?thesis by (rule conjI)
qed

theorem editAsset_annotated_directives_witness:
  "truthy (API_KEY studio_host) \<and> truthy (Some ''data:image/png;base64,MASK'')
   \<and> \<not> truthy None
   \<and> editAsset_annotated studio_host ''data:image/png;base64,AAAA'' (Some ''data:image/png;base64,MASK'')
        ''make it blue''
      = ([analysis_request ''data:image/png;base64,MASK'' ''make it blue'',
          edit_request ''data:image/png;base64,MASK'' True ''Recolour the highlighted mug blue''],
         Inr ''data:image/png;base64,BBBB'')
   \<and> editAsset_annotated studio_host ''data:image/png;base64,AAAA'' None ''make it blue''
      = ([edit_request ''data:image/png;base64,AAAA'' False ''make it blue''],
         Inr ''data:image/png;base64,BBBB'')"
  using editAsset_annotated_directives [of studio_host "Some ''data:image/png;base64,MASK''" "''make it blue''"
      "''data:image/png;base64,AAAA''"]
    editAsset_annotated_directives [of studio_host None "''make it blue''" "''data:image/png;base64,AAAA''"]
  by (simp add: editAsset_annotated_def analyzeAnnotations_def apply_edit_def getClient_def studio_host_def
      offline_host_def truthy_def tpl_def analysis_request_def edit_request_def text_response_def
      image_response_def first_text_def first_parts_def or_default_def)

text \<open>
  C3, as stated, fails on the \<^verbatim>\<open>editAsset\<close> of the first revision
  (\<^verbatim>\<open>src/services/geminiService.ts\<close>, lines 364 to 397): with a mask it sends one
  request, the instruction as typed, without calling an annotation interpreter, and with
  or without a mask no text of the request asks to preserve anything.
\<close>

theorem editAsset_counterexample:
  "fst (editAsset studio_host ''data:image/png;base64,AAAA'' (Some ''data:image/png;base64,MASK'')
          ''make it blue'')
     = [\<lparr>model = ''gemini-3-pro-image-preview'',
         parts = [InlinePart ''image/png'' (Some ''AAAA''), TextPart ''make it blue'',
                  InlinePart ''image/png'' (Some ''MASK''),
                  TextPart ''Use the second image as a sketch/mask guidance for the changes.''],
         aspectRatio = None, imageSize = None\<rparr>]
   \<and> fst (editAsset studio_host ''data:image/png;base64,AAAA'' None ''make it blue'')
     = [\<lparr>model = ''gemini-3-pro-image-preview'',
         parts = [InlinePart ''image/png'' (Some ''AAAA''), TextPart ''make it blue''],
         aspectRatio = None, imageSize = None\<rparr>]
   \<and> \<not> says (hd (fst (editAsset studio_host ''data:image/png;base64,AAAA'' None ''make it blue'')))
          ''PRESERVE''"
  by (simp add: editAsset_def apply_edit_def getClient_def studio_host_def offline_host_def
      truthy_def tpl_def split_comma_1_def says_def image_response_def first_parts_def)

subsection \<open>The brand form's submit handler\<close>

text \<open>
  C7, as stated, fails: with no website in the form, no uploaded logo and no extracted
  logo, the brand is saved, without a logo and without a warning.
\<close>

theorem handleSubmit_counterexample:
  "form_url (formData new_form) = [] \<and> logoPreview new_form = None \<and> logoImage acme = None
   \<and> saved (handleSubmit (Inr acme) new_form) = [acme]
   \<and> logoError (handleSubmit (Inr acme) new_form) = None
   \<and> isEditing (handleSubmit (Inr acme) new_form) = False"
  by (simp add: handleSubmit_def new_form_def acme_def truthy_def or_js_def)

text \<open>
  C7, amended. When brand synthesis succeeds: an uploaded logo, when present, is the logo
  of the saved brand whatever was extracted; when a website was given and both the
  uploaded and the extracted logo are absent, nothing is saved and the warning is set;
  when no website was given and both are absent, the brand is saved as synthesised.
\<close>

theorem handleSubmit_logo_precedence:
  "(truthy (logoPreview st) \<longrightarrow>
      saved (handleSubmit (Inr result) st) = saved st @ [result\<lparr>logoImage := logoPreview st\<rparr>]
      \<and> logoError (handleSubmit (Inr result) st) = None)
   \<and> (\<not> truthy (logoPreview st) \<and> \<not> truthy (logoImage result) \<and> form_url (formData st) \<noteq> [] \<longrightarrow>
      saved (handleSubmit (Inr result) st) = saved st
      \<and> logoError (handleSubmit (Inr result) st) = Some extraction_warning
      \<and> isEditing (handleSubmit (Inr result) st) = isEditing st
      \<and> isGenerating (handleSubmit (Inr result) st) = False)
   \<and> (\<not> truthy (logoPreview st) \<and> \<not> truthy (logoImage result) \<and> form_url (formData st) = [] \<longrightarrow>
      saved (handleSubmit (Inr result) st) = saved st @ [result]
      \<and> logoError (handleSubmit (Inr result) st) = None)"
  by (auto simp: handleSubmit_def Let_def or_js_def)

theorem handleSubmit_logo_precedence_witness:
  "truthy (logoPreview (new_form\<lparr>logoPreview := Some ''data:image/png;base64,MANUAL''\<rparr>))
   \<and> saved (handleSubmit (Inr (acme\<lparr>logoImage := Some ''data:image/png;base64,AUTO''\<rparr>))
               (new_form\<lparr>logoPreview := Some ''data:image/png;base64,MANUAL''\<rparr>))
       = [acme\<lparr>logoImage := Some ''data:image/png;base64,MANUAL''\<rparr>]
   \<and> saved (handleSubmit (Inr acme)
               (new_form\<lparr>formData := (formData new_form)\<lparr>form_url := ''https://acme.example''\<rparr>\<rparr>)) = []
   \<and> logoError (handleSubmit (Inr acme)
               (new_form\<lparr>formData := (formData new_form)\<lparr>form_url := ''https://acme.example''\<rparr>\<rparr>))
       = Some extraction_warning
   \<and> saved (handleSubmit (Inr acme) new_form) = [acme]"
  using handleSubmit_logo_precedence
      [of "new_form\<lparr>logoPreview := Some ''data:image/png;base64,MANUAL''\<rparr>"
          "acme\<lparr>logoImage := Some ''data:image/png;base64,AUTO''\<rparr>"]
    handleSubmit_logo_precedence
      [of "new_form\<lparr>formData := (formData new_form)\<lparr>form_url := ''https://acme.example''\<rparr>\<rparr>" acme]
    handleSubmit_logo_precedence [of new_form acme]
  by (simp add: new_form_def acme_def truthy_def)

subsection \<open>Prompt composer\<close>

lemma includes_strI: "s = a @ p @ b \<Longrightarrow> includes_str s p"
  by (simp add: includes_str_mid)

text \<open>
  The length that \<^verbatim>\<open>buildPrompt\<close> logs: a two-byte character counts once, a four-byte
  character twice.
\<close>

lemma js_length_example:
  "js_length [CHR ''C'', CHR ''a'', CHR ''f'', CHR 0xC3, CHR 0xA9] = 4
   \<and> length [CHR ''C'', CHR ''a'', CHR ''f'', CHR 0xC3, CHR 0xA9] = 5
   \<and> js_length [CHR 0xF0, CHR 0x9F, CHR 0x8E, CHR 0xA8] = 2"
  by (simp add: js_length_def utf16_units_def)

lemma snd_buildPrompt:
  "snd (buildPrompt dna inspirations type subtype specificInstruction)
     = finalPrompt dna inspirations type subtype specificInstruction"
  by (simp add: buildPrompt_def Let_def)

lemma final_includes_base:
  "includes_str basePrompt p \<Longrightarrow> includes_str (final_template dna basePrompt il ic) p"
  unfolding final_template_def
  by (rule includes_str_window [where k = 2 and n = 1]) simp

lemma includes_str_pieces:
  "take n (drop k xs) = ys \<Longrightarrow> includes_str (concat ys) p \<Longrightarrow> includes_str (concat xs) p"
  using includes_str_window [of n k xs p] by simp

lemma merchandise_primary:
  "includes_str (merchandise_template dna st gd pc ac li) (''- Base fabric/material color: '' @ pc)"
  unfolding merchandise_template_def
proof (rule includes_str_pieces [where k = 20 and n = 2])
  show "includes_str (concat [''        - Base fabric/material color: '', pc])
          (''- Base fabric/material color: '' @ pc)"
    by (rule includes_strI [where a = "''        ''" and b = "[]"]) simp
qed simp

lemma merchandise_accent:
  "includes_str (merchandise_template dna st gd pc ac li) (''- Accent color in design: '' @ ac)"
  unfolding merchandise_template_def
proof (rule includes_str_pieces [where k = 45 and n = 2])
  show "includes_str (concat [''        - Accent color in design: '', ac])
          (''- Accent color in design: '' @ ac)"
    by (rule includes_strI [where a = "''        ''" and b = "[]"]) simp
qed simp

text \<open>The merchandise branch does use the defaults when the colors list is empty.\<close>

lemma merchandise_default_colors:
  assumes "colors dna = []"
  shows "includes_str (snd (buildPrompt dna inspirations MERCHANDISE subtype specificInstruction))
           ''- Base fabric/material color: white''
       \<and> includes_str (snd (buildPrompt dna inspirations MERCHANDISE subtype specificInstruction))
           ''- Accent color in design: black''"
proof -
  have p: "includes_str (merchandise_template dna subtype gd ''white'' ''black'' li)
             ''- Base fabric/material color: white''" for gd li
    using merchandise_primary [of dna subtype gd "''white''" "''black''" li] by simp
  have a: "includes_str (merchandise_template dna subtype gd ''white'' ''black'' li)
             ''- Accent color in design: black''" for gd li
    using merchandise_accent [of dna subtype gd "''white''" "''black''" li] by simp
  from assms show ?thesis
    by (simp add: snd_buildPrompt finalPrompt_def Let_def or_default_def final_includes_base p a
        del: includes_str.simps)
qed

text \<open>
  C6 holds for the merchandise category only. For a brand with an empty colors list, the
  merchandise prompt names \<^verbatim>\<open>white\<close> and \<^verbatim>\<open>black\<close>, but the marketing and the digital
  prompt print the joined list as it is: they read \<^verbatim>\<open>brand colors ()\<close>, respectively
  \<^verbatim>\<open>Colors: .\<close>, and neither default appears in the marketing prompt.
\<close>

theorem buildPrompt_empty_colors:
  "colors (acme\<lparr>colors := []\<rparr>) = []
   \<and> includes_str (snd (buildPrompt (acme\<lparr>colors := []\<rparr>) [] MERCHANDISE ''Hoodie'' None))
        ''- Base fabric/material color: white''
   \<and> includes_str (snd (buildPrompt (acme\<lparr>colors := []\<rparr>) [] MERCHANDISE ''Hoodie'' None))
        ''- Accent color in design: black''
   \<and> includes_str (snd (buildPrompt (acme\<lparr>colors := []\<rparr>) [] MARKETING ''Poster'' None))
        ''Incorporate the brand colors ()''
   \<and> \<not> includes_str (snd (buildPrompt (acme\<lparr>colors := []\<rparr>) [] MARKETING ''Poster'' None)) ''white''
   \<and> \<not> includes_str (snd (buildPrompt (acme\<lparr>colors := []\<rparr>) [] MARKETING ''Poster'' None)) ''black''
   \<and> includes_str (snd (buildPrompt (acme\<lparr>colors := []\<rparr>) [] DIGITAL ''Banner'' None))
        (''Colors: .'' @ nl)
   \<and> \<not> includes_str (snd (buildPrompt (acme\<lparr>colors := []\<rparr>) [] DIGITAL ''Banner'' None)) ''white''
   \<and> \<not> includes_str (snd (buildPrompt (acme\<lparr>colors := []\<rparr>) [] DIGITAL ''Banner'' None)) ''black''"
proof -
  have m: "includes_str (snd (buildPrompt (acme\<lparr>colors := []\<rparr>) [] MERCHANDISE ''Hoodie'' None))
        ''- Base fabric/material color: white''
      \<and> includes_str (snd (buildPrompt (acme\<lparr>colors := []\<rparr>) [] MERCHANDISE ''Hoodie'' None))
        ''- Accent color in design: black''"
    by (rule merchandise_default_colors) simp
  have o: "includes_str (snd (buildPrompt (acme\<lparr>colors := []\<rparr>) [] MARKETING ''Poster'' None))
        ''Incorporate the brand colors ()''
   \<and> \<not> includes_str (snd (buildPrompt (acme\<lparr>colors := []\<rparr>) [] MARKETING ''Poster'' None)) ''white''
   \<and> \<not> includes_str (snd (buildPrompt (acme\<lparr>colors := []\<rparr>) [] MARKETING ''Poster'' None)) ''black''
   \<and> includes_str (snd (buildPrompt (acme\<lparr>colors := []\<rparr>) [] DIGITAL ''Banner'' None))
        (''Colors: .'' @ nl)
   \<and> \<not> includes_str (snd (buildPrompt (acme\<lparr>colors := []\<rparr>) [] DIGITAL ''Banner'' None)) ''white''
   \<and> \<not> includes_str (snd (buildPrompt (acme\<lparr>colors := []\<rparr>) [] DIGITAL ''Banner'' None)) ''black''"
    by (simp add: snd_buildPrompt finalPrompt_def final_template_def marketing_template_def
      digital_template_def logoInstruction_of_def acme_def truthy_def nl_def dq_def)
  from m o show ?thesis by simp
qed

subsection \<open>Draft fan-out\<close>

lemma upt_0_4: "[0..<4] = [0, 1, 2, 3]"
  by code_simp

lemma rejections_sound:
  "(k, e) \<in> set (rejections n rs) \<Longrightarrow> n \<le> k \<and> k - n < length rs \<and> rs ! (k - n) = Inl e"
proof (induction n rs rule: rejections.induct)
  case (1 n)
  then show ?case by simp
next
  case (2 n e' rs)
  show ?case
  proof (cases "(k, e) = (n, e')")
    case True
    then show ?thesis by simp
  next
    case False
    with "2.prems" have "(k, e) \<in> set (rejections (Suc n) rs)" by auto
    from "2.IH" [OF this] have "Suc n \<le> k" "k - Suc n < length rs" "rs ! (k - Suc n) = Inl e"
      by simp_all
    moreover from \<open>Suc n \<le> k\<close> have "k - n = Suc (k - Suc n)" by simp
    ultimately show ?thesis by simp
  qed
next
  case (3 n x rs)
  then have "(k, e) \<in> set (rejections (Suc n) rs)" by simp
  from "3.IH" [OF this] have "Suc n \<le> k" "k - Suc n < length rs" "rs ! (k - Suc n) = Inl e"
    by simp_all
  moreover from \<open>Suc n \<le> k\<close> have "k - n = Suc (k - Suc n)" by simp
  ultimately show ?case by simp
qed

lemma rejections_none: "rejections n rs = [] \<Longrightarrow> rs = map Inr (fulfilments rs)"
  by (induction n rs rule: rejections.induct) simp_all

text \<open>What \<^verbatim>\<open>Promise.all\<close> settles to: all the values, or the rejection of one of the promises.\<close>

lemma await_all_cases:
  "(\<exists>xs. await_all h rs = Inr xs \<and> rs = map Inr xs)
   \<or> (\<exists>k e. k < length rs \<and> rs ! k = Inl e \<and> await_all h rs = Inl e)"
proof (cases "rejections 0 rs")
  case Nil
  then have "await_all h rs = Inr (fulfilments rs)" by (simp add: await_all_def)
  with rejections_none [OF Nil] show ?thesis by blast
next
  case (Cons ke others)
  obtain k e where ke: "ke = (k, e)" by (cases ke)
  have "\<exists>k' e'. (k', e') \<in> set (rejections 0 rs) \<and> await_all h rs = Inl e'"
  proof (cases "map_of ((k, e) # others) (settles_first h (k # map fst others))")
    case None
    with Cons ke have "await_all h rs = Inl e" by (simp add: await_all_def)
    with Cons ke show ?thesis by auto
  next
    case (Some e')
    with Cons ke have "await_all h rs = Inl e'" by (simp add: await_all_def)
    moreover from Some have "(settles_first h (k # map fst others), e') \<in> set ((k, e) # others)"
      by (rule map_of_SomeD)
    ultimately show ?thesis using Cons ke by auto
  qed
  then obtain k' e' where "(k', e') \<in> set (rejections 0 rs)" "await_all h rs = Inl e'"
    by blast
  with rejections_sound [of k' e' 0 rs] show ?thesis by auto
qed

lemma generateDrafts_unfold:
  "truthy (API_KEY h) \<Longrightarrow>
   generateDrafts h dna inspirations type subtype =
     (let req = draft_request dna
                  (finalPrompt dna inspirations type subtype (Some ''Create 4 distinct variations.''))
      in case await_all h [generateContent h 0 req, generateContent h 1 req,
                           generateContent h 2 req, generateContent h 3 req] of
           Inl e \<Rightarrow> (replicate 4 req, Inl e)
         | Inr responses \<Rightarrow> (replicate 4 req, Inr (concat (map response_images responses))))"
  by (simp add: generateDrafts_def getClient_def snd_buildPrompt Let_def upt_0_4)

text \<open>
  C1, as stated, fails. When none of the four responses carries an image,
  \<^verbatim>\<open>generateDrafts\<close> returns the empty list and raises nothing; without a credential it
  sends no request at all; when each response carries two images it returns eight; and
  when one request is rejected the whole call is rejected, the images of the other three
  with it.
\<close>

theorem generateDrafts_counterexample:
  "snd (generateDrafts silent_host acme [] MERCHANDISE ''Hoodie'') = Inr []
   \<and> generateDrafts (silent_host\<lparr>API_KEY := None\<rparr>) acme [] MERCHANDISE ''Hoodie''
       = ([], Inl (Error ''API Key not found. Please select a key.''))
   \<and> snd (generateDrafts two_image_host acme [] MERCHANDISE ''Hoodie'')
       = Inr [''data:image/png;base64,AAAA'', ''data:image/png;base64,BBBB'',
              ''data:image/png;base64,AAAA'', ''data:image/png;base64,BBBB'',
              ''data:image/png;base64,AAAA'', ''data:image/png;base64,BBBB'',
              ''data:image/png;base64,AAAA'', ''data:image/png;base64,BBBB'']
   \<and> snd (generateDrafts one_rejects_host acme [] MERCHANDISE ''Hoodie'')
       = Inl (HostError ''429 quota'')"
proof -
  have k: "truthy (API_KEY silent_host)" "truthy (API_KEY two_image_host)"
    "truthy (API_KEY one_rejects_host)"
    by (simp_all add: silent_host_def two_image_host_def one_rejects_host_def offline_host_def
        truthy_def)
  have nokey: "generateDrafts (silent_host\<lparr>API_KEY := None\<rparr>) acme [] MERCHANDISE ''Hoodie''
       = ([], Inl (Error ''API Key not found. Please select a key.''))"
    by (simp add: generateDrafts_def getClient_def truthy_def)
  show ?thesis
    unfolding generateDrafts_unfold [OF k(1)] generateDrafts_unfold [OF k(2)]
      generateDrafts_unfold [OF k(3)] nokey
    by (simp add: Let_def await_all_def silent_host_def two_image_host_def one_rejects_host_def
        offline_host_def response_images_def first_parts_def empty_response_def
        two_image_response_def image_response_def tpl_def)
qed

text \<open>
  C1, amended. With a credential, \<^verbatim>\<open>generateDrafts\<close> sends exactly four requests, all
  alike. When the four are answered, the result is the images of the first candidate of
  each response, in request order: a response without an image adds nothing and the
  others are kept, and the result has at most four images when no response carries more
  than one. When any of the four is rejected, the call is rejected with the reason of a
  rejected request and returns no image.
\<close>

theorem generateDrafts_fanout:
  assumes "truthy (API_KEY h)"
  shows "\<exists>req. fst (generateDrafts h dna inspirations type subtype) = replicate 4 req \<and>
     (\<forall>r0 r1 r2 r3.
        generateContent h 0 req = Inr r0 \<and> generateContent h 1 req = Inr r1 \<and>
        generateContent h 2 req = Inr r2 \<and> generateContent h 3 req = Inr r3 \<longrightarrow>
        snd (generateDrafts h dna inspirations type subtype)
          = Inr (response_images r0 @ response_images r1 @ response_images r2 @ response_images r3)
        \<and> (length (response_images r0) \<le> 1 \<and> length (response_images r1) \<le> 1 \<and>
            length (response_images r2) \<le> 1 \<and> length (response_images r3) \<le> 1 \<longrightarrow>
            (\<exists>images. snd (generateDrafts h dna inspirations type subtype) = Inr images
               \<and> length images \<le> 4)))
     \<and> ((\<exists>k<4. \<exists>e. generateContent h k req = Inl e) \<longrightarrow>
          (\<exists>k<4. \<exists>e. generateContent h k req = Inl e
             \<and> snd (generateDrafts h dna inspirations type subtype) = Inl e))"
proof -
  let ?req = "draft_request dna
                (finalPrompt dna inspirations type subtype (Some ''Create 4 distinct variations.''))"
  let ?rs = "[generateContent h 0 ?req, generateContent h 1 ?req,
              generateContent h 2 ?req, generateContent h 3 ?req]"
  have nth: "?rs ! k = generateContent h k ?req" if "k < 4" for k
  proof -
    from that have "k = 0 \<or> k = 1 \<or> k = 2 \<or> k = 3" by arith
    then show ?thesis by auto
  qed
  have sent: "fst (generateDrafts h dna inspirations type subtype) = replicate 4 ?req"
    unfolding generateDrafts_unfold [OF assms]
    by (simp add: Let_def split: sum.splits)
  have answered: "snd (generateDrafts h dna inspirations type subtype)
          = Inr (response_images r0 @ response_images r1 @ response_images r2 @ response_images r3)"
    if "generateContent h 0 ?req = Inr r0" "generateContent h 1 ?req = Inr r1"
       "generateContent h 2 ?req = Inr r2" "generateContent h 3 ?req = Inr r3" for r0 r1 r2 r3
    unfolding generateDrafts_unfold [OF assms] using that
    by (simp add: Let_def await_all_def)
  have rejected: "\<exists>k<4. \<exists>e. generateContent h k ?req = Inl e
             \<and> snd (generateDrafts h dna inspirations type subtype) = Inl e"
    if "\<exists>k<4. \<exists>e. generateContent h k ?req = Inl e"
  proof -
    from that obtain k0 e0 where k0: "k0 < 4" "generateContent h k0 ?req = Inl e0" by blast
    have "(\<exists>xs. await_all h ?rs = Inr xs \<and> ?rs = map Inr xs)
        \<or> (\<exists>k e. k < length ?rs \<and> ?rs ! k = Inl e \<and> await_all h ?rs = Inl e)"
      by (rule await_all_cases)
    then show ?thesis
    proof (elim disjE exE conjE)
      fix xs
      assume all: "?rs = map Inr xs"
      have len: "length xs = 4"
        using arg_cong [OF all, of length] by simp
      have "generateContent h k0 ?req = ?rs ! k0"
        using nth [OF k0(1)] by (rule sym)
      also have "\<dots> = map Inr xs ! k0"
        using arg_cong [OF all, of "\<lambda>l. l ! k0"] .
      also have "\<dots> = Inr (xs ! k0)"
        using len k0(1) by (intro nth_map) simp
      finally have "generateContent h k0 ?req = Inr (xs ! k0)" .
      with k0(2) show ?thesis by simp
    next
      fix k e
      assume r: "k < length ?rs" "?rs ! k = Inl e" "await_all h ?rs = Inl e"
      from r(1) have k4: "k < 4" by simp
      have "generateContent h k ?req = Inl e"
        by (rule trans [OF sym [OF nth [OF k4]] r(2)])
      moreover from r(3) have "snd (generateDrafts h dna inspirations type subtype) = Inl e"
        unfolding generateDrafts_unfold [OF assms] by (simp add: Let_def)
      ultimately show ?thesis using k4 by blast
    qed
  qed
  from sent answered rejected show ?thesis
    by (intro exI [of _ ?req]) auto
qed

theorem generateDrafts_fanout_witness:
  "truthy (API_KEY partial_host)
   \<and> length (fst (generateDrafts partial_host acme [] MERCHANDISE ''Hoodie'')) = 4
   \<and> snd (generateDrafts partial_host acme [] MERCHANDISE ''Hoodie'')
       = Inr [''data:image/png;base64,AAAA'', ''data:image/png;base64,CCCC'']
   \<and> truthy (API_KEY one_rejects_host)
   \<and> snd (generateDrafts one_rejects_host acme [] MERCHANDISE ''Hoodie'')
       = Inl (HostError ''429 quota'')"
proof -
  have k: "truthy (API_KEY partial_host)"
    by (simp add: partial_host_def offline_host_def truthy_def)
  have k': "truthy (API_KEY one_rejects_host)"
    by (simp add: one_rejects_host_def offline_host_def truthy_def)
  from generateDrafts_fanout [OF k, of acme "[]" MERCHANDISE "''Hoodie''"]
  obtain req where
    req: "fst (generateDrafts partial_host acme [] MERCHANDISE ''Hoodie'') = replicate 4 req"
      "\<And>r0 r1 r2 r3. generateContent partial_host 0 req = Inr r0 \<and>
          generateContent partial_host 1 req = Inr r1 \<and>
          generateContent partial_host 2 req = Inr r2 \<and>
          generateContent partial_host 3 req = Inr r3 \<Longrightarrow>
          snd (generateDrafts partial_host acme [] MERCHANDISE ''Hoodie'')
            = Inr (response_images r0 @ response_images r1 @ response_images r2 @ response_images r3)"
    by blast
  have a: "snd (generateDrafts partial_host acme [] MERCHANDISE ''Hoodie'')
      = Inr (response_images (image_response ''AAAA'') @ response_images empty_response
             @ response_images (image_response ''CCCC'') @ response_images empty_response)"
    by (rule req(2)) (simp add: partial_host_def offline_host_def)
  from generateDrafts_fanout [OF k', of acme "[]" MERCHANDISE "''Hoodie''"]
  obtain req' where
    req': "(\<exists>k<4. \<exists>e. generateContent one_rejects_host k req' = Inl e) \<longrightarrow>
          (\<exists>k<4. \<exists>e. generateContent one_rejects_host k req' = Inl e
             \<and> snd (generateDrafts one_rejects_host acme [] MERCHANDISE ''Hoodie'') = Inl e)"
    by blast
  have "generateContent one_rejects_host 1 req' = Inl (HostError ''429 quota'')"
    by (simp add: one_rejects_host_def offline_host_def)
  then have "\<exists>k<4. \<exists>e. generateContent one_rejects_host k req' = Inl e"
    by (intro exI [of _ 1]) simp
  with req' obtain k1 e1 where
    "generateContent one_rejects_host k1 req' = Inl e1"
    "snd (generateDrafts one_rejects_host acme [] MERCHANDISE ''Hoodie'') = Inl e1"
    by blast
  then have b: "snd (generateDrafts one_rejects_host acme [] MERCHANDISE ''Hoodie'')
       = Inl (HostError ''429 quota'')"
    by (simp add: one_rejects_host_def offline_host_def split: if_splits)
  from k k' req(1) a b show ?thesis
    by (simp add: response_images_def first_parts_def image_response_def empty_response_def tpl_def)
qed

end
